theory Spec2Isabelle
  imports Complex_Main
begin

section \<open>Data model of the analysis engine\<close>

text \<open>
  The engine of \<^verbatim>\<open>analysis.js\<close> works on plain JavaScript objects. Numbers are IEEE
  doubles in the source; the model computes with real numbers, so rounding error of the
  floating-point unit and the non-finite values \<^verbatim>\<open>NaN\<close> and \<^verbatim>\<open>Infinity\<close> are
  outside the model. Strings are lists of 8-bit characters, read as code units below 256.
\<close>

datatype json =
    JNull
  | JBool bool
  | JNum real
  | JStr string
  | JArr "json list"
  | JObj "(string \<times> json) list"

text \<open>One entry of \<^verbatim>\<open>aggregatedData.sources\<close>.\<close>

record source_result =
  type :: string
  resource :: string
  status :: string
  error :: "string option"

text \<open>The object returned by \<^verbatim>\<open>LivePriceFetcher.fetchLivePrice\<close> (its timestamp left out).\<close>

record live_price =
  lp_symbol :: string
  lp_price :: real
  lp_source :: string
  isLive :: bool

text \<open>What one backup provider returns (\<^verbatim>\<open>fetchBinanceOnDemand\<close> and its siblings).\<close>

record provider_data =
  provider :: string
  price :: real
  volume24h :: "real option"
  change24h :: "real option"

text \<open>The object built by \<^verbatim>\<open>convertToStandardFormat\<close>.\<close>

record backup_data =
  bk_symbol :: string
  lastPrice :: real
  price24hPcnt :: real
  bk_volume24h :: real
  bk_timestamp :: nat
  backupProvider :: string

text \<open>
  \<^verbatim>\<open>aggregatedData\<close>: the fixed properties the engine writes, and \<^verbatim>\<open>bybitData\<close> for the
  properties written under a computed key by \<^verbatim>\<open>aggregatedData[dataType] = result\<close>
  (\<^verbatim>\<open>aggregatedData.kline\<close> is \<^verbatim>\<open>bybitData ''kline''\<close>). A data type that
  \<^verbatim>\<open>fetchBybitData\<close> accepts starts with \<^verbatim>\<open>kline\<close> or is one of \<^verbatim>\<open>tickers\<close>,
  \<^verbatim>\<open>fundingRateHistory\<close>, \<^verbatim>\<open>longShortRatio\<close>, so a computed key never collides with
  a fixed property.
\<close>

record aggregatedData =
  sources :: "source_result list"
  bybitData :: "string \<rightharpoonup> json"
  livePrice :: "live_price option"
  webContent :: "(string \<times> string) list option"
  enhancedIndicators :: "json option"
  fallbackTickers :: "backup_data option"
  confidenceScore :: "int option"

section \<open>Confidence scorer\<close>

text \<open>\<^verbatim>\<open>Math.round\<close>: the nearest integer, a half rounded towards plus infinity.\<close>

definition Math_round :: "real \<Rightarrow> int" where
  "Math_round x = \<lfloor>x + 1 / 2\<rfloor>"

text \<open>
  \<^verbatim>\<open>calculateConfidenceScore(aggregatedData)\<close>. Each \<^verbatim>\<open>let\<close> below is one statement of the
  source, \<^verbatim>\<open>c0\<close> to \<^verbatim>\<open>c4\<close> being the successive values of \<^verbatim>\<open>confidence\<close>. An
  object is truthy, so \<^verbatim>\<open>if (aggregatedData.livePrice)\<close> tests presence.
\<close>

definition calculateConfidenceScore :: "aggregatedData \<Rightarrow> int" where
  "calculateConfidenceScore a =
    (let c0 = (50 :: real);
         successfulSources = length (filter (\<lambda>s. status s = ''success'') (sources a));
         totalSources = length (sources a);
         c1 = (if totalSources > 0
               then c0 + (real successfulSources / real totalSources) * 30 else c0);
         c2 = (if livePrice a \<noteq> None then c1 + 10 else c1);
         c3 = (if enhancedIndicators a \<noteq> None then c2 + 10 else c2);
         c4 = (case webContent a of
                 None \<Rightarrow> c3
               | Some w \<Rightarrow> if length w > 0 then c3 + 5 else c3)
     in min (max (Math_round c4) 0) 100)"

text \<open>
  The scorer as the specification words it, over the five features it names: the number
  of successful and of all source results, and the presence of a live price, of indicator
  values and of web content.
\<close>

definition successCount :: "aggregatedData \<Rightarrow> nat" where
  "successCount a = length (filter (\<lambda>s. status s = ''success'') (sources a))"

definition totalCount :: "aggregatedData \<Rightarrow> nat" where
  "totalCount a = length (sources a)"

definition hasWebContent :: "aggregatedData \<Rightarrow> bool" where
  "hasWebContent a = (case webContent a of None \<Rightarrow> False | Some w \<Rightarrow> w \<noteq> [])"

definition bonuses :: "aggregatedData \<Rightarrow> real" where
  "bonuses a =
     (if livePrice a \<noteq> None then 10 else 0)
   + (if enhancedIndicators a \<noteq> None then 10 else 0)
   + (if hasWebContent a then 5 else 0)"

definition int_bonuses :: "aggregatedData \<Rightarrow> int" where
  "int_bonuses a =
     (if livePrice a \<noteq> None then 10 else 0)
   + (if enhancedIndicators a \<noteq> None then 10 else 0)
   + (if hasWebContent a then 5 else 0)"

definition score_sum :: "aggregatedData \<Rightarrow> real" where
  "score_sum a =
     50 + (if totalCount a > 0 then 30 * (real (successCount a) / real (totalCount a)) else 0)
        + bonuses a"

definition spec_score :: "aggregatedData \<Rightarrow> int" where
  "spec_score a = min 100 (max 0 (round (score_sum a)))"

section \<open>Indicator library\<close>

text \<open>
  The static methods of \<^verbatim>\<open>TechnicalIndicators\<close>. A price series is a list of reals, a
  period a natural number, and the result \<^verbatim>\<open>null\<close> is \<open>None\<close>. The guard
  \<^verbatim>\<open>!values\<close> of the source rejects a missing array, which the list type excludes.
  With period 0 the source divides by zero and yields \<^verbatim>\<open>NaN\<close> or \<^verbatim>\<open>Infinity\<close>; the
  quotients of the model have no meaning there.
\<close>

text \<open>\<^verbatim>\<open>array.slice(start)\<close>: a negative start counts from the end of the array.\<close>

definition js_slice_from :: "int \<Rightarrow> 'a list \<Rightarrow> 'a list" where
  "js_slice_from start xs =
     (if start < 0 then drop (nat (int (length xs) + start)) xs else drop (nat start) xs)"

text \<open>The number a \<^verbatim>\<open>null\<close> operand of an arithmetic operator stands for: zero.\<close>

definition to_num :: "real option \<Rightarrow> real" where
  "to_num v = (case v of None \<Rightarrow> 0 | Some x \<Rightarrow> x)"

definition SMA :: "real list \<Rightarrow> nat \<Rightarrow> real option" where
  "SMA values period =
     (if length values < period then None
      else Some (foldl (\<lambda>a b. a + b) 0 (js_slice_from (- int period) values) / real period))"

text \<open>
  \<^verbatim>\<open>EMA\<close> seeds with \<^verbatim>\<open>values[0]\<close> and folds the remaining values. On the empty
  array (which passes the guard only with period 0) the source returns \<^verbatim>\<open>undefined\<close>,
  modelled as \<open>None\<close>.
\<close>

definition EMA :: "real list \<Rightarrow> nat \<Rightarrow> real option" where
  "EMA values period =
     (if length values < period then None
      else (case values of
              [] \<Rightarrow> None
            | v # vs \<Rightarrow>
                let k = 2 / (real period + 1)
                in Some (foldl (\<lambda>ema x. x * k + ema * (1 - k)) v vs)))"

text \<open>
  One iteration of the loop of \<^verbatim>\<open>RSI\<close>, on the pair \<^verbatim>\<open>(gains, losses)\<close>. The guard
  \<^verbatim>\<open>closes.length < period + 1\<close> keeps \<^verbatim>\<open>i - 1\<close> inside the array.
\<close>

definition rsi_step :: "real list \<Rightarrow> real \<times> real \<Rightarrow> nat \<Rightarrow> real \<times> real" where
  "rsi_step closes gl i =
     (let change = closes ! i - closes ! (i - 1)
      in if change > 0 then (fst gl + change, snd gl) else (fst gl, snd gl - change))"

definition RSI :: "real list \<Rightarrow> nat \<Rightarrow> real option" where
  "RSI closes period =
     (if length closes < period + 1 then None
      else
        let gl = foldl (rsi_step closes) (0, 0) [length closes - period ..< length closes];
            avgGain = fst gl / real period;
            avgLoss = snd gl / real period
        in if avgLoss = 0 then Some 100
           else let rs = avgGain / avgLoss in Some (100 - (100 / (1 + rs))))"

record macd_result =
  macdLine :: real
  signalLine :: "real option"
  histogram :: real
  crossover :: string

definition MACD :: "real list \<Rightarrow> nat \<Rightarrow> nat \<Rightarrow> nat \<Rightarrow> macd_result option" where
  "MACD closes fastPeriod slowPeriod signalPeriod =
     (if length closes < slowPeriod + signalPeriod then None
      else (case (EMA closes fastPeriod, EMA closes slowPeriod) of
              (Some emaFast, Some emaSlow) \<Rightarrow>
                let macdLine = emaFast - emaSlow;
                    macdValues = js_slice_from (int slowPeriod - 1)
                      (map (\<lambda>i. if int i < int slowPeriod - 1 then 0
                                 else to_num (EMA (take (i + 1) closes) fastPeriod)
                                    - to_num (EMA (take (i + 1) closes) slowPeriod))
                           [0 ..< length closes]);
                    signalLine = EMA macdValues signalPeriod
                in Some \<lparr>macdLine = macdLine, signalLine = signalLine,
                         histogram = macdLine - to_num signalLine,
                         crossover = (if macdLine > to_num signalLine
                                      then ''bullish'' else ''bearish'')\<rparr>
            | _ \<Rightarrow> None))"

record bollinger_result =
  upper :: real
  middle :: real
  lower :: real
  squeeze :: bool

text \<open>
  \<^verbatim>\<open>BollingerBands\<close> calls \<^verbatim>\<open>SMA\<close> behind the same length guard, so the
  \<open>None\<close> branch of the case below is never taken.
\<close>

definition BollingerBands :: "real list \<Rightarrow> nat \<Rightarrow> real \<Rightarrow> bollinger_result option" where
  "BollingerBands closes period multiplier =
     (if length closes < period then None
      else (case SMA closes period of
              None \<Rightarrow> None
            | Some sma \<Rightarrow>
                let stddev = sqrt (foldl (\<lambda>sum val. sum + (val - sma) ^ 2) 0
                                     (js_slice_from (- int period) closes) / real period)
                in Some \<lparr>upper = sma + multiplier * stddev, middle = sma,
                         lower = sma - multiplier * stddev,
                         squeeze = (stddev < sma * (1 / 10))\<rparr>))"

text \<open>
  \<^verbatim>\<open>WMA\<close>: the weights are 1 to \<^verbatim>\<open>period\<close>, and the reducer pairs each value of
  the slice with its index. With a positive period the slice has \<^verbatim>\<open>period\<close> values, so
  every index reads inside \<^verbatim>\<open>weights\<close>.
\<close>

definition WMA :: "real list \<Rightarrow> nat \<Rightarrow> real option" where
  "WMA values period =
     (if length values < period then None
      else
        let weights = map (\<lambda>i. real (i + 1)) [0 ..< period];
            weightSum = foldl (\<lambda>a b. a + b) 0 weights;
            sliced = js_slice_from (- int period) values
        in Some (foldl (\<lambda>sum vi. sum + fst vi * weights ! snd vi) 0
                   (zip sliced [0 ..< length sliced]) / weightSum))"

definition HMA :: "real list \<Rightarrow> nat \<Rightarrow> real option" where
  "HMA values period =
     (if length values < period then None
      else
        let halfPeriod = period div 2;
            sqrtPeriod = nat \<lfloor>sqrt (real period)\<rfloor>;
            rawHMA = map (\<lambda>i. 2 * to_num (WMA (take (i + 1) values) halfPeriod)
                              - to_num (WMA (take (i + 1) values) period))
                         [0 ..< length values]
        in WMA (js_slice_from (- int sqrtPeriod) rawHMA) sqrtPeriod)"

text \<open>
  The relative strength index as the specification words it: over the trailing window of
  \<^verbatim>\<open>period\<close> price changes, the simple average of the positive changes and the simple
  average of the magnitudes of the other changes.
\<close>

definition trailing_deltas :: "real list \<Rightarrow> nat \<Rightarrow> real list" where
  "trailing_deltas closes period =
     map (\<lambda>i. closes ! i - closes ! (i - 1)) [length closes - period ..< length closes]"

definition spec_avgGain :: "real list \<Rightarrow> nat \<Rightarrow> real" where
  "spec_avgGain closes period =
     sum_list (filter (\<lambda>d. d > 0) (trailing_deltas closes period)) / real period"

definition spec_avgLoss :: "real list \<Rightarrow> nat \<Rightarrow> real" where
  "spec_avgLoss closes period =
     sum_list (map (\<lambda>d. - d) (filter (\<lambda>d. d < 0) (trailing_deltas closes period))) / real period"

section \<open>Strings\<close>

text \<open>
  A JavaScript string is a sequence of UTF-16 code units; a character of the model is
  a code unit below 256 (ASCII and the Latin-1 supplement), and text with code units
  from 256 on is outside the model. On this range the string methods the engine uses
  are:
  \<^item> \<^verbatim>\<open>toLowerCase\<close> maps \<^verbatim>\<open>A\<close> to \<^verbatim>\<open>Z\<close> and the Latin-1 capitals \<^verbatim>\<open>0xC0\<close> to
    \<^verbatim>\<open>0xDE\<close> (the sign \<^verbatim>\<open>0xD7\<close> apart) to the letters 32 above them;
  \<^item> \<^verbatim>\<open>toUpperCase\<close> maps the other way and writes the sharp s \<^verbatim>\<open>0xDF\<close> as
    \<^verbatim>\<open>SS\<close>; the capitals of \<^verbatim>\<open>0xB5\<close> and \<^verbatim>\<open>0xFF\<close> lie beyond 255 and the model
    keeps these two characters, which no search for a key of ASCII letters can tell;
  \<^item> \<^verbatim>\<open>trim\<close> strips white space and line terminators from both ends: tab, line
    feed, vertical tab, form feed, carriage return, space and the no-break space
    \<^verbatim>\<open>0xA0\<close>;
  \<^item> \<^verbatim>\<open>includes\<close> looks for a substring and \<^verbatim>\<open>startsWith\<close> for a prefix.
\<close>

definition upper_chars :: string where
  "upper_chars =
     ''ABCDEFGHIJKLMNOPQRSTUVWXYZ''
     @ [CHR 0xC0, CHR 0xC1, CHR 0xC2, CHR 0xC3, CHR 0xC4, CHR 0xC5, CHR 0xC6, CHR 0xC7,
        CHR 0xC8, CHR 0xC9, CHR 0xCA, CHR 0xCB, CHR 0xCC, CHR 0xCD, CHR 0xCE, CHR 0xCF,
        CHR 0xD0, CHR 0xD1, CHR 0xD2, CHR 0xD3, CHR 0xD4, CHR 0xD5, CHR 0xD6]
     @ [CHR 0xD8, CHR 0xD9, CHR 0xDA, CHR 0xDB, CHR 0xDC, CHR 0xDD, CHR 0xDE]"

definition lower_chars :: string where
  "lower_chars =
     ''abcdefghijklmnopqrstuvwxyz''
     @ [CHR 0xE0, CHR 0xE1, CHR 0xE2, CHR 0xE3, CHR 0xE4, CHR 0xE5, CHR 0xE6, CHR 0xE7,
        CHR 0xE8, CHR 0xE9, CHR 0xEA, CHR 0xEB, CHR 0xEC, CHR 0xED, CHR 0xEE, CHR 0xEF,
        CHR 0xF0, CHR 0xF1, CHR 0xF2, CHR 0xF3, CHR 0xF4, CHR 0xF5, CHR 0xF6]
     @ [CHR 0xF8, CHR 0xF9, CHR 0xFA, CHR 0xFB, CHR 0xFC, CHR 0xFD, CHR 0xFE]"

definition toLowerCase :: "string \<Rightarrow> string" where
  "toLowerCase s =
     map (\<lambda>c. case map_of (zip upper_chars lower_chars) c of Some d \<Rightarrow> d | None \<Rightarrow> c) s"

definition toUpperCase :: "string \<Rightarrow> string" where
  "toUpperCase s =
     concat (map (\<lambda>c. if c = CHR 0xDF then ''SS''
                        else (case map_of (zip lower_chars upper_chars) c of
                                Some d \<Rightarrow> [d]
                              | None \<Rightarrow> [c])) s)"

definition is_space :: "char \<Rightarrow> bool" where
  "is_space c =
     (c \<in> set [CHR 0x09, CHR 0x0A, CHR 0x0B, CHR 0x0C, CHR 0x0D, CHR 0x20, CHR 0xA0])"

definition trim :: "string \<Rightarrow> string" where
  "trim s = rev (dropWhile is_space (rev (dropWhile is_space s)))"

definition startsWith :: "string \<Rightarrow> string \<Rightarrow> bool" where
  "startsWith s pre = (take (length pre) s = pre)"

fun str_includes :: "string \<Rightarrow> string \<Rightarrow> bool" where
  "str_includes [] sub = (sub = [])"
| "str_includes (c # cs) sub = (startsWith (c # cs) sub \<or> str_includes cs sub)"

section \<open>Provider fallback pool\<close>

text \<open>
  \<^verbatim>\<open>UniversalMultiDataProvider\<close> and \<^verbatim>\<open>UniversalDataFallback\<close>. The keys of
  \<^verbatim>\<open>this.providers\<close> are the three provider names, in the order of the constructor.
\<close>

datatype provider_id = binance | coinbase | coingecko

record provider_state =
  active :: bool
  priority :: int

record fallback_state =
  providers :: "provider_id \<Rightarrow> provider_state"
  initialized :: bool

definition provider_keys :: "provider_id list" where
  "provider_keys = [binance, coinbase, coingecko]"

definition new_fallback :: fallback_state where
  "new_fallback =
     \<lparr>providers = (\<lambda>p. case p of
          binance \<Rightarrow> \<lparr>active = False, priority = 1\<rparr>
        | coinbase \<Rightarrow> \<lparr>active = False, priority = 2\<rparr>
        | coingecko \<Rightarrow> \<lparr>active = False, priority = 3\<rparr>),
      initialized = False\<rparr>"

definition universalSymbolMap :: "(string \<times> (provider_id \<times> string) list) list" where
  "universalSymbolMap =
     [(''BTCUSDT'', [(binance, ''BTCUSDT''), (coinbase, ''BTC-USD''), (coingecko, ''bitcoin'')]),
      (''ETHUSDT'', [(binance, ''ETHUSDT''), (coinbase, ''ETH-USD''), (coingecko, ''ethereum'')]),
      (''SOLUSDT'', [(binance, ''SOLUSDT''), (coinbase, ''SOL-USD''), (coingecko, ''solana'')])]"

text \<open>
  \<^verbatim>\<open>initialize\<close>: each provider whose reachability probe answers becomes active; the
  pool counts as initialized when at least one provider is active. The argument
  \<^verbatim>\<open>ping\<close> tells which probes answer.
\<close>

definition initialize_providers ::
  "(provider_id \<Rightarrow> bool) \<Rightarrow> (provider_id \<Rightarrow> provider_state) \<Rightarrow> provider_id \<Rightarrow> provider_state" where
  "initialize_providers ping ps = (\<lambda>p. if ping p then (ps p)\<lparr>active := True\<rparr> else ps p)"

definition initialize :: "(provider_id \<Rightarrow> bool) \<Rightarrow> fallback_state \<Rightarrow> fallback_state" where
  "initialize ping st =
     (if initialized st then st
      else
        let ps = initialize_providers ping (providers st);
            activeProviders = filter (\<lambda>p. active (ps p)) provider_keys
        in \<lparr>providers = ps, initialized = (length activeProviders > 0)\<rparr>)"

text \<open>
  The loop of \<^verbatim>\<open>getUniversalData\<close> over the sorted provider names. The three
  \<^verbatim>\<open>fetch...OnDemand\<close> methods catch every error and return \<^verbatim>\<open>null\<close>, so the outcome
  of a fetch, \<^verbatim>\<open>fetch p s\<close>, is an option. The first component of the result lists the
  providers that were asked, in the order of the requests; the second is the value
  returned.
\<close>

fun try_providers ::
  "(provider_id \<Rightarrow> string \<Rightarrow> provider_data option) \<Rightarrow> (provider_id \<Rightarrow> provider_state) \<Rightarrow>
   (provider_id \<times> string) list \<Rightarrow> provider_id list \<Rightarrow> provider_id list \<times> provider_data option" where
  "try_providers fetch ps mapping [] = ([], None)"
| "try_providers fetch ps mapping (p # rest) =
     (case map_of mapping p of
        None \<Rightarrow> try_providers fetch ps mapping rest
      | Some s \<Rightarrow>
          if active (ps p) \<and> s \<noteq> [] then
            (case fetch p s of
               Some d \<Rightarrow> ([p], Some d)
             | None \<Rightarrow>
                 (let r = try_providers fetch ps mapping rest in (p # fst r, snd r)))
          else try_providers fetch ps mapping rest)"

definition getUniversalData ::
  "(provider_id \<Rightarrow> string \<Rightarrow> provider_data option) \<Rightarrow> fallback_state \<Rightarrow> string \<Rightarrow>
   provider_id list \<times> provider_data option" where
  "getUniversalData fetch st symbol =
     (case map_of universalSymbolMap symbol of
        None \<Rightarrow> ([], None)
      | Some mapping \<Rightarrow>
          try_providers fetch (providers st) mapping
            (sort_key (\<lambda>p. priority (providers st p)) provider_keys))"

text \<open>
  \<^verbatim>\<open>convertToStandardFormat\<close>; \<^verbatim>\<open>now\<close> is the reading of the clock. A missing
  \<^verbatim>\<open>change24h\<close> or \<^verbatim>\<open>volume24h\<close> becomes 0.
\<close>

definition convertToStandardFormat :: "nat \<Rightarrow> string \<Rightarrow> provider_data \<Rightarrow> backup_data" where
  "convertToStandardFormat now symbol backupData =
     \<lparr>bk_symbol = symbol, lastPrice = price backupData,
      price24hPcnt = to_num (change24h backupData),
      bk_volume24h = to_num (volume24h backupData),
      bk_timestamp = now, backupProvider = provider backupData\<rparr>"

definition getBackupData ::
  "(provider_id \<Rightarrow> string \<Rightarrow> provider_data option) \<Rightarrow> nat \<Rightarrow> fallback_state \<Rightarrow> string \<Rightarrow>
   provider_id list \<times> backup_data option" where
  "getBackupData fetch now st symbol =
     (if \<not> initialized st then ([], None)
      else
        (let r = getUniversalData fetch st symbol
         in case snd r of
              Some d \<Rightarrow> (fst r, Some (convertToStandardFormat now symbol d))
            | None \<Rightarrow> (fst r, None)))"

text \<open>
  The lookup as the specification words it: the candidates are the active providers that
  have a mapping for the symbol, in ascending priority; the answer is that of the first
  candidate whose fetch is not \<^verbatim>\<open>null\<close>.
\<close>

definition has_mapping :: "(provider_id \<times> string) list \<Rightarrow> provider_id \<Rightarrow> bool" where
  "has_mapping mapping p = (case map_of mapping p of None \<Rightarrow> False | Some s \<Rightarrow> s \<noteq> [])"

definition candidates ::
  "(provider_id \<Rightarrow> provider_state) \<Rightarrow> (provider_id \<times> string) list \<Rightarrow> provider_id list" where
  "candidates ps mapping =
     filter (\<lambda>p. active (ps p) \<and> has_mapping mapping p)
       (sort_key (\<lambda>p. priority (ps p)) provider_keys)"

definition answer_of ::
  "(provider_id \<Rightarrow> string \<Rightarrow> provider_data option) \<Rightarrow> (provider_id \<times> string) list \<Rightarrow>
   provider_id \<Rightarrow> provider_data option" where
  "answer_of fetch mapping p = (case map_of mapping p of None \<Rightarrow> None | Some s \<Rightarrow> fetch p s)"

text \<open>
  The providers asked, given the candidates in order and the answer of each: those that
  answer \<^verbatim>\<open>null\<close> up to the first that does not, and that one; and the value returned.
\<close>

definition asked :: "('p \<Rightarrow> 'd option) \<Rightarrow> 'p list \<Rightarrow> 'p list" where
  "asked ans cs =
     takeWhile (\<lambda>p. ans p = None) cs
     @ (case find (\<lambda>p. ans p \<noteq> None) cs of None \<Rightarrow> [] | Some p \<Rightarrow> [p])"

definition first_answer :: "('p \<Rightarrow> 'd option) \<Rightarrow> 'p list \<Rightarrow> 'd option" where
  "first_answer ans cs =
     (case find (\<lambda>p. ans p \<noteq> None) cs of None \<Rightarrow> None | Some p \<Rightarrow> ans p)"


section \<open>Live price fetcher\<close>

text \<open>
  \<^verbatim>\<open>LivePriceFetcher\<close>. The keys of \<^verbatim>\<open>symbolMap\<close> are tried in the order of the
  constructor; the three tests for common variations that follow look for the same
  keys. \<^verbatim>\<open>priceApi api symbol\<close> is the outcome of one request with its
  \<^verbatim>\<open>parsePrice\<close>: \<open>Inl\<close> when either throws, \<open>Inr None\<close> when the parsed price is
  \<^verbatim>\<open>null\<close> or not a number, \<open>Inr (Some x)\<close> for the number \<open>x\<close>. Each request sits in
  its own \<^verbatim>\<open>try\<close>, so \<^verbatim>\<open>fetchLivePrice\<close> returns \<^verbatim>\<open>null\<close> and does not throw when
  every request fails.
\<close>

definition symbolMap_keys :: "string list" where
  "symbolMap_keys = [''BTC'', ''BITCOIN'', ''ETH'', ''ETHEREUM'', ''SOL'', ''SOLANA'']"

definition extractSymbolFromQuery :: "string \<Rightarrow> string option" where
  "extractSymbolFromQuery query =
     (let upperQuery = toUpperCase query
      in case find (\<lambda>key. str_includes upperQuery key) symbolMap_keys of
           Some key \<Rightarrow> Some key
         | None \<Rightarrow>
             if str_includes upperQuery ''BTC'' \<or> str_includes upperQuery ''BITCOIN''
             then Some ''BTC''
             else if str_includes upperQuery ''ETH'' \<or> str_includes upperQuery ''ETHEREUM''
             then Some ''ETH''
             else if str_includes upperQuery ''SOL'' \<or> str_includes upperQuery ''SOLANA''
             then Some ''SOL''
             else None)"

definition priceAPIs :: "string list" where
  "priceAPIs = [''coinbase'', ''coingecko'', ''binance'']"

fun try_price_apis ::
  "(string \<Rightarrow> string \<Rightarrow> string + real option) \<Rightarrow> string \<Rightarrow> string list \<Rightarrow> live_price option" where
  "try_price_apis priceApi symbol [] = None"
| "try_price_apis priceApi symbol (api # rest) =
     (case priceApi api symbol of
        Inl e \<Rightarrow> try_price_apis priceApi symbol rest
      | Inr None \<Rightarrow> try_price_apis priceApi symbol rest
      | Inr (Some p) \<Rightarrow>
          if p > 0
          then Some \<lparr>lp_symbol = symbol, lp_price = p, lp_source = api, isLive = True\<rparr>
          else try_price_apis priceApi symbol rest)"

definition fetchLivePrice ::
  "(string \<Rightarrow> string \<Rightarrow> string + real option) \<Rightarrow> string \<Rightarrow> live_price option" where
  "fetchLivePrice priceApi query =
     (case extractSymbolFromQuery query of
        None \<Rightarrow> None
      | Some symbol \<Rightarrow> try_price_apis priceApi symbol priceAPIs)"

section \<open>Planner\<close>

text \<open>
  A plan is the object the planning oracle answers with, or the one
  \<^verbatim>\<open>createFallbackPlan\<close> builds. \<^verbatim>\<open>bybit\<close> lists the entries of the object
  \<^verbatim>\<open>requiredData.bybit\<close> in insertion order, as \<^verbatim>\<open>Object.entries\<close> does;
  \<^verbatim>\<open>wantsLivePrice\<close> is the truth value of \<^verbatim>\<open>requiredData.livePrice\<close>; a missing
  property is \<open>None\<close>, as is a \<^verbatim>\<open>webSearch\<close> that is not an array.
\<close>

record bybit_params =
  symbol :: string
  interval :: "string option"
  limit :: "nat option"

record required_data =
  bybit :: "(string \<times> bybit_params) list option"
  wantsLivePrice :: bool
  webSearch :: "string list option"
  technicalIndicators :: "string list option"

record data_plan =
  isCasual :: bool
  response :: "string option"
  requiredData :: "required_data option"

definition planSymbolMap :: "(string \<times> string) list" where
  "planSymbolMap =
     [(''btc'', ''BTCUSDT''), (''bitcoin'', ''BTCUSDT''),
      (''eth'', ''ETHUSDT''), (''ethereum'', ''ETHUSDT''),
      (''sol'', ''SOLUSDT''), (''solana'', ''SOLUSDT'')]"

definition createFallbackPlan :: "string \<Rightarrow> data_plan" where
  "createFallbackPlan userQuery =
     (let lowerQuery = toLowerCase userQuery;
          detectedSymbol =
            (case find (\<lambda>entry. str_includes lowerQuery (fst entry)) planSymbolMap of
               Some entry \<Rightarrow> snd entry
             | None \<Rightarrow> ''BTCUSDT'');
          tickers = (''tickers'', \<lparr>symbol = detectedSymbol, interval = None, limit = None\<rparr>);
          rd =
            (if str_includes lowerQuery ''price'' \<or> str_includes lowerQuery ''cost'' then
               \<lparr>bybit = Some [tickers], wantsLivePrice = True,
                webSearch = Some [detectedSymbol @ '' current price''],
                technicalIndicators = Some []\<rparr>
             else if str_includes lowerQuery ''analysis'' \<or> str_includes lowerQuery ''technical'' then
               \<lparr>bybit = Some [(''kline'', \<lparr>symbol = detectedSymbol, interval = Some ''D'',
                                          limit = Some 50\<rparr>), tickers],
                wantsLivePrice = False,
                webSearch = Some [detectedSymbol @ '' technical analysis''],
                technicalIndicators = Some [''SMA20'', ''RSI14'', ''MACD'']\<rparr>
             else
               \<lparr>bybit = Some [tickers], wantsLivePrice = False,
                webSearch = Some [userQuery @ '' cryptocurrency''],
                technicalIndicators = Some []\<rparr>)
      in \<lparr>isCasual = False, response = None, requiredData = Some rd\<rparr>)"

definition casualKeywords :: "string list" where
  "casualKeywords =
     [''hi'', ''hello'', ''thanks'', ''thank you'', ''hey'', ''good morning'', ''good evening'']"

definition isCasualOnly :: "string \<Rightarrow> bool" where
  "isCasualOnly userQuery =
     (let lowerQuery = toLowerCase userQuery
      in list_ex (\<lambda>word. trim lowerQuery = word \<or> trim lowerQuery = word @ ''!'') casualKeywords)"

definition casual_greeting :: string where
  "casual_greeting = ''Hello! I'' @ [CHR 0x27] @ ''m Sally, your dynamic crypto analysis AI. I can handle ANY crypto question by intelligently deciding what data sources and analysis methods to use. What would you like to know?''"

text \<open>
  \<^verbatim>\<open>createDynamicDataPlan\<close>. The argument \<^verbatim>\<open>oracle\<close> is the outcome of the one call
  \<^verbatim>\<open>queryLocalLLM(planningPrompt, false)\<close>: \<open>Inl\<close> when it throws (no answer, no JSON
  object in the answer), \<open>Inr\<close> with the parsed plan otherwise. The second component of
  the result counts the calls made to the oracle.
\<close>

record context_message =
  role :: string
  ctx_content :: string
  ctx_timestamp :: nat

definition createDynamicDataPlan ::
  "(string + data_plan) \<Rightarrow> string \<Rightarrow> context_message list \<Rightarrow> data_plan \<times> nat" where
  "createDynamicDataPlan oracle userQuery recentContext =
     (if isCasualOnly userQuery \<and> length recentContext = 0
      then (\<lparr>isCasual = True, response = Some casual_greeting, requiredData = None\<rparr>, 0)
      else (case oracle of
              Inr planResult \<Rightarrow> (planResult, 1)
            | Inl e \<Rightarrow> (createFallbackPlan userQuery, 1)))"

section \<open>Memory manager\<close>

text \<open>
  The collection \<^verbatim>\<open>chatMessages\<close> is a list of documents. The query
  \<^verbatim>\<open>find(sel).sort({timestamp: -1}).limit(n).toArray()\<close> keeps the selected documents,
  orders them by descending timestamp and takes the first \<^verbatim>\<open>n\<close>.
\<close>

record chat_message =
  chatId :: string
  mtype :: string
  content :: string
  timestamp :: nat

definition find_desc :: "(chat_message \<Rightarrow> bool) \<Rightarrow> nat \<Rightarrow> chat_message list \<Rightarrow> chat_message list" where
  "find_desc sel n docs = take n (rev (sort_key timestamp (filter sel docs)))"

text \<open>
  \<^verbatim>\<open>getLastUserMessage\<close> returns \<^verbatim>\<open>msgs[1]?.content || null\<close>: the content of the
  second document, and \<^verbatim>\<open>null\<close> when there is none or when its content is the empty
  string.
\<close>

definition getLastUserMessage :: "chat_message list \<Rightarrow> string \<Rightarrow> string option" where
  "getLastUserMessage docs cid =
     (let msgs = find_desc (\<lambda>m. chatId m = cid \<and> mtype m = ''user'') 2 docs
      in case drop 1 msgs of
           [] \<Rightarrow> None
         | m # _ \<Rightarrow> if content m = [] then None else Some (content m))"

definition getRecentMessages :: "chat_message list \<Rightarrow> string \<Rightarrow> nat \<Rightarrow> context_message list" where
  "getRecentMessages docs cid n =
     map (\<lambda>m. \<lparr>role = (if mtype m = ''ai'' then ''assistant'' else ''user''),
               ctx_content = content m, ctx_timestamp = timestamp m\<rparr>)
         (rev (find_desc (\<lambda>m. chatId m = cid) n docs))"

text \<open>
  The user turns of a chat, the most recent first, as the specification speaks of them.
\<close>

definition user_turns_desc :: "chat_message list \<Rightarrow> string \<Rightarrow> chat_message list" where
  "user_turns_desc docs cid =
     rev (sort_key timestamp (filter (\<lambda>m. chatId m = cid \<and> mtype m = ''user'') docs))"

section \<open>Analysis engine\<close>

text \<open>
  Everything \<^verbatim>\<open>handleUserQuery\<close> reads from outside the engine during one request is a
  field of \<^verbatim>\<open>world\<close>:
  \<^item> \<^verbatim>\<open>memory\<close>: whether \<^verbatim>\<open>this.memory\<close> is set;
  \<^item> \<^verbatim>\<open>chatMessages\<close>: the collection, or the message of the error its queries throw;
  \<^item> \<^verbatim>\<open>longTermMemory\<close>: the message of the error that \<^verbatim>\<open>getChatMemory\<close> or
    \<^verbatim>\<open>getUserProfile\<close> throws, if one does (their values only enter the prompts);
  \<^item> \<^verbatim>\<open>planningOracle\<close>: the outcome of the planning call to the language model;
  \<^item> \<^verbatim>\<open>bybitClient\<close>: the outcome of the Bybit request for a data type and its
    parameters, \<^verbatim>\<open>payload\<close> being \<^verbatim>\<open>result.result.list || result.result\<close>;
  \<^item> \<^verbatim>\<open>fallback\<close>, \<^verbatim>\<open>fetchOnDemand\<close>, \<^verbatim>\<open>clock\<close>: the state of the fallback pool,
    the answers of its providers and the time;
  \<^item> \<^verbatim>\<open>priceApi\<close>: the answers of the live price services;
  \<^item> \<^verbatim>\<open>fetchTavilyContext\<close>: the text of a web search, \<^verbatim>\<open>null\<close> on any error;
  \<^item> \<^verbatim>\<open>calculateRequestedIndicators\<close>: the indicator table computed from the candles,
    or the message of the error thrown;
  \<^item> \<^verbatim>\<open>generateFinalAnalysis\<close>: the outcome of the final call to the language model.
  The calls the engine makes are logged in order, one \<^verbatim>\<open>call\<close> each.
\<close>

record bybit_response =
  retCode :: int
  retMsg :: string
  payload :: json

record world =
  memory :: bool
  chatMessages :: "string + chat_message list"
  longTermMemory :: "string option"
  planningOracle :: "string + data_plan"
  bybitClient :: "string \<Rightarrow> bybit_params \<Rightarrow> string + bybit_response"
  fallback :: fallback_state
  fetchOnDemand :: "provider_id \<Rightarrow> string \<Rightarrow> provider_data option"
  clock :: nat
  priceApi :: "string \<Rightarrow> string \<Rightarrow> string + real option"
  fetchTavilyContext :: "string \<Rightarrow> string option"
  calculateRequestedIndicators :: "json \<Rightarrow> string list \<Rightarrow> string + json"
  generateFinalAnalysis :: "aggregatedData \<Rightarrow> string + string"

datatype call =
    OracleCall
  | BybitCall string
  | FallbackCall string
  | LivePriceCall string
  | WebSearchCall string
  | IndicatorsCall
  | FinalAnalysisCall

record query_options =
  opt_chatId :: "string option"
  opt_userId :: "string option"

record query_result =
  isAnalysis :: bool
  res_response :: "string option"
  dataSources :: "source_result list option"
  hasLivePrice :: "bool option"
  res_confidenceScore :: "int option"

fun truthy :: "json \<Rightarrow> bool" where
  "truthy JNull = False"
| "truthy (JBool b) = b"
| "truthy (JNum x) = (x \<noteq> 0)"
| "truthy (JStr s) = (s \<noteq> [])"
| "truthy (JArr xs) = True"
| "truthy (JObj kvs) = True"

definition last_question_phrases :: "string list" where
  "last_question_phrases =
     [''what did i ask just now'', ''what did i ask just now?'', ''what did i ask'',
      ''what was my last question'', ''last question?'', ''what was my previous question'',
      ''my last question'']"

definition isLastQuestionQuery :: "string \<Rightarrow> bool" where
  "isLastQuestionQuery query =
     (let s = toLowerCase (trim query) in s \<in> set last_question_phrases)"

definition fetchBybitData :: "world \<Rightarrow> string \<Rightarrow> bybit_params \<Rightarrow> string + json" where
  "fetchBybitData w dataType params =
     (if \<not> startsWith dataType ''kline''
         \<and> dataType \<notin> set [''tickers'', ''fundingRateHistory'', ''longShortRatio'']
      then Inl (''Unsupported Bybit dataType: '' @ dataType)
      else (case bybitClient w dataType params of
              Inl e \<Rightarrow> Inl e
            | Inr r \<Rightarrow>
                if retCode r \<noteq> 0
                then Inl (''Bybit API Error for '' @ dataType @ '': '' @ retMsg r)
                else Inr (payload r)))"

definition push :: "source_result \<Rightarrow> aggregatedData \<Rightarrow> aggregatedData" where
  "push s a = a\<lparr>sources := sources a @ [s]\<rparr>"

text \<open>
  \<^verbatim>\<open>tryFallbackData\<close>, first as a function of the outcome of
  \<^verbatim>\<open>universalDataFallback.getBackupData(symbol)\<close>: a result that is not \<^verbatim>\<open>null\<close> is
  stored and recorded as a success, a thrown error is recorded as a failure, and the
  result \<^verbatim>\<open>null\<close> leaves \<^verbatim>\<open>aggregatedData\<close> as it is. \<^verbatim>\<open>getBackupData\<close> does not
  throw: it reports every failure by returning \<^verbatim>\<open>null\<close>.
\<close>

definition tryFallbackData_on ::
  "string + backup_data option \<Rightarrow> aggregatedData \<Rightarrow> aggregatedData" where
  "tryFallbackData_on outcome a =
     (case outcome of
        Inr (Some fallbackData) \<Rightarrow>
          push \<lparr>type = ''fallback'', resource = backupProvider fallbackData @ ''_ticker'',
                status = ''success'', error = None\<rparr>
            (a\<lparr>fallbackTickers := Some fallbackData\<rparr>)
      | Inr None \<Rightarrow> a
      | Inl msg \<Rightarrow>
          push \<lparr>type = ''fallback'', resource = ''universal_fallback'',
                status = ''failed'', error = Some msg\<rparr> a)"

definition tryFallbackData :: "world \<Rightarrow> string \<Rightarrow> aggregatedData \<Rightarrow> aggregatedData" where
  "tryFallbackData w s a =
     tryFallbackData_on
       (Inr (snd (getBackupData (fetchOnDemand w) (clock w) (fallback w) s))) a"

text \<open>
  The loop over \<^verbatim>\<open>Object.entries(requiredData.bybit)\<close>. The state is
  \<^verbatim>\<open>aggregatedData\<close> with the log of calls.
\<close>

fun fetch_bybit_entries ::
  "world \<Rightarrow> (string \<times> bybit_params) list \<Rightarrow> aggregatedData \<times> call list \<Rightarrow>
   aggregatedData \<times> call list" where
  "fetch_bybit_entries w [] st = st"
| "fetch_bybit_entries w (entry # rest) st =
     (let dataType = fst entry; params = snd entry; a = fst st; cs = snd st
      in case fetchBybitData w dataType params of
           Inr result \<Rightarrow>
             fetch_bybit_entries w rest
               (push \<lparr>type = ''bybit'', resource = dataType, status = ''success'', error = None\<rparr>
                  (a\<lparr>bybitData := (bybitData a)(dataType \<mapsto> result)\<rparr>),
                cs @ [BybitCall dataType])
         | Inl msg \<Rightarrow>
             (let a1 = push \<lparr>type = ''bybit'', resource = dataType, status = ''failed'',
                             error = Some msg\<rparr> a
              in if str_includes dataType ''tickers'' \<or> dataType = ''tickers''
                 then fetch_bybit_entries w rest
                        (tryFallbackData w (symbol params) a1,
                         cs @ [BybitCall dataType, FallbackCall (symbol params)])
                 else fetch_bybit_entries w rest (a1, cs @ [BybitCall dataType])))"

text \<open>
  The block \<^verbatim>\<open>if (requiredData.livePrice)\<close>, as a function of the outcome of
  \<^verbatim>\<open>fetchLivePrice(userQuery)\<close>: a price is stored and recorded as a success, a thrown
  error is recorded as a failure, and the result \<^verbatim>\<open>null\<close> leaves \<^verbatim>\<open>aggregatedData\<close>
  as it is.
\<close>

definition live_price_on ::
  "string + live_price option \<Rightarrow> aggregatedData \<Rightarrow> aggregatedData" where
  "live_price_on outcome a =
     (case outcome of
        Inr (Some lp) \<Rightarrow>
          push \<lparr>type = ''live_price'', resource = ''live_price_api'', status = ''success'',
                error = None\<rparr>
            (a\<lparr>livePrice := Some lp\<rparr>)
      | Inr None \<Rightarrow> a
      | Inl msg \<Rightarrow>
          push \<lparr>type = ''live_price'', resource = ''live_price_api'', status = ''failed'',
                error = Some msg\<rparr> a)"

definition live_price_block ::
  "world \<Rightarrow> string \<Rightarrow> required_data \<Rightarrow> aggregatedData \<times> call list \<Rightarrow>
   aggregatedData \<times> call list" where
  "live_price_block w userQuery rd st =
     (if wantsLivePrice rd
      then (live_price_on (Inr (fetchLivePrice (priceApi w) userQuery)) (fst st),
            snd st @ [LivePriceCall userQuery])
      else st)"

text \<open>
  \<^verbatim>\<open>searchAndSummarizeWeb\<close> does not throw either: \<^verbatim>\<open>fetchTavilyContext\<close> catches
  every error and returns \<^verbatim>\<open>null\<close>, which becomes the text for no results.
\<close>

definition searchAndSummarizeWeb :: "world \<Rightarrow> string \<Rightarrow> string" where
  "searchAndSummarizeWeb w searchQuery =
     (case fetchTavilyContext w searchQuery of
        None \<Rightarrow> ''No web results found.''
      | Some context \<Rightarrow>
          if length (trim context) > 0 then trim context else ''No web results found.'')"

definition web_search_on ::
  "string \<Rightarrow> string + string \<Rightarrow> aggregatedData \<Rightarrow> aggregatedData" where
  "web_search_on query outcome a =
     (case outcome of
        Inr summary \<Rightarrow>
          push \<lparr>type = ''web'', resource = query, status = ''success'', error = None\<rparr>
            (a\<lparr>webContent := Some ((case webContent a of None \<Rightarrow> [] | Some c \<Rightarrow> c)
                                      @ [(query, summary)])\<rparr>)
      | Inl msg \<Rightarrow>
          push \<lparr>type = ''web'', resource = query, status = ''failed'', error = Some msg\<rparr> a)"

fun web_search_entries ::
  "world \<Rightarrow> string list \<Rightarrow> aggregatedData \<times> call list \<Rightarrow> aggregatedData \<times> call list" where
  "web_search_entries w [] st = st"
| "web_search_entries w (query # rest) st =
     web_search_entries w rest
       (web_search_on query (Inr (searchAndSummarizeWeb w query)) (fst st),
        snd st @ [WebSearchCall query])"

definition web_search_block ::
  "world \<Rightarrow> required_data \<Rightarrow> aggregatedData \<times> call list \<Rightarrow> aggregatedData \<times> call list" where
  "web_search_block w rd st =
     (case webSearch rd of
        None \<Rightarrow> st
      | Some queries \<Rightarrow>
          web_search_entries w queries ((fst st)\<lparr>webContent := Some []\<rparr>, snd st))"

definition indicators_block ::
  "world \<Rightarrow> required_data \<Rightarrow> aggregatedData \<times> call list \<Rightarrow> aggregatedData \<times> call list" where
  "indicators_block w rd st =
     (case (technicalIndicators rd, bybitData (fst st) ''kline'') of
        (Some names, Some kline) \<Rightarrow>
          if truthy kline then
            (case calculateRequestedIndicators w kline names of
               Inr results \<Rightarrow>
                 (push \<lparr>type = ''calculation'', resource = ''technicalIndicators'',
                        status = ''success'', error = None\<rparr>
                    ((fst st)\<lparr>enhancedIndicators := Some results\<rparr>),
                  snd st @ [IndicatorsCall])
             | Inl msg \<Rightarrow>
                 (push \<lparr>type = ''calculation'', resource = ''technicalIndicators'',
                        status = ''failed'', error = Some msg\<rparr> (fst st),
                  snd st @ [IndicatorsCall]))
          else st
      | _ \<Rightarrow> st)"

text \<open>
  Steps 2 and 3 of \<^verbatim>\<open>handleUserQuery\<close>: from the empty \<^verbatim>\<open>aggregatedData\<close>, the Bybit
  entries, the live price, the web searches and the indicators, in this order, and then
  the confidence score.
\<close>

definition empty_data :: aggregatedData where
  "empty_data =
     \<lparr>sources = [], bybitData = Map.empty, livePrice = None, webContent = None,
      enhancedIndicators = None, fallbackTickers = None, confidenceScore = None\<rparr>"

definition bybit_block ::
  "world \<Rightarrow> required_data \<Rightarrow> aggregatedData \<times> call list \<Rightarrow> aggregatedData \<times> call list" where
  "bybit_block w rd st =
     (case bybit rd of None \<Rightarrow> st | Some entries \<Rightarrow> fetch_bybit_entries w entries st)"

definition aggregate :: "world \<Rightarrow> string \<Rightarrow> required_data \<Rightarrow> aggregatedData \<times> call list" where
  "aggregate w userQuery rd =
     (let st = indicators_block w rd
                 (web_search_block w rd
                   (live_price_block w userQuery rd
                     (bybit_block w rd (empty_data, []))))
      in ((fst st)\<lparr>confidenceScore := Some (calculateConfidenceScore (fst st))\<rparr>, snd st))"

text \<open>
  \<^verbatim>\<open>handleUserQuery(userQuery, {chatId, userId})\<close>. The result is \<open>Inl\<close> with the
  message of the error the outer \<^verbatim>\<open>catch\<close> throws, or \<open>Inr\<close> with the object returned,
  and the log of calls. Step 5 of the source, the update of the long-term memory, writes
  to the store only and swallows its own errors; it is left out.
\<close>

definition failure :: "string \<Rightarrow> string" where
  "failure msg = ''Dynamic Analysis failed: '' @ msg"

definition chatId_of :: "query_options \<Rightarrow> string option" where
  "chatId_of options =
     (case opt_chatId options of None \<Rightarrow> None | Some c \<Rightarrow> if c = [] then None else Some c)"

definition last_question_response :: "string option \<Rightarrow> string" where
  "last_question_response lastQuestion =
     (case lastQuestion of
        Some q \<Rightarrow> ''Your previous question was: '' @ [CHR 0x22] @ q @ [CHR 0x22]
      | None \<Rightarrow> ''No previous question found in this chat.'')"

definition casual_result :: "string option \<Rightarrow> query_result" where
  "casual_result r =
     \<lparr>isAnalysis = False, res_response = r, dataSources = None, hasLivePrice = None,
      res_confidenceScore = None\<rparr>"

definition load_recent :: "world \<Rightarrow> query_options \<Rightarrow> string + context_message list" where
  "load_recent w options =
     (case chatId_of options of
        None \<Rightarrow> Inr []
      | Some cid \<Rightarrow>
          if memory w then
            (case chatMessages w of
               Inl e \<Rightarrow> Inl e
             | Inr docs \<Rightarrow>
                 (case longTermMemory w of
                    Some e \<Rightarrow> Inl e
                  | None \<Rightarrow> Inr (getRecentMessages docs cid 12)))
          else Inr [])"

definition empty_required :: required_data where
  "empty_required =
     \<lparr>bybit = None, wantsLivePrice = False, webSearch = None, technicalIndicators = None\<rparr>"

definition analyse :: "world \<Rightarrow> string \<Rightarrow> data_plan \<Rightarrow> (string + query_result) \<times> call list" where
  "analyse w userQuery plan =
     (let rd = (case requiredData plan of None \<Rightarrow> empty_required | Some r \<Rightarrow> r);
          st = aggregate w userQuery rd;
          a = fst st
      in case generateFinalAnalysis w a of
           Inl e \<Rightarrow> (Inl (failure e), snd st @ [FinalAnalysisCall])
         | Inr finalResponse \<Rightarrow>
             (Inr \<lparr>isAnalysis = True, res_response = Some finalResponse,
                   dataSources = Some (sources a), hasLivePrice = Some (livePrice a \<noteq> None),
                   res_confidenceScore = confidenceScore a\<rparr>,
              snd st @ [FinalAnalysisCall]))"

definition handleUserQuery ::
  "world \<Rightarrow> string \<Rightarrow> query_options \<Rightarrow> (string + query_result) \<times> call list" where
  "handleUserQuery w userQuery options =
     (if isLastQuestionQuery userQuery \<and> chatId_of options \<noteq> None \<and> memory w then
        (case chatMessages w of
           Inl e \<Rightarrow> (Inl (failure e), [])
         | Inr docs \<Rightarrow>
             (Inr (casual_result (Some (last_question_response
                     (case chatId_of options of
                        None \<Rightarrow> None
                      | Some cid \<Rightarrow> getLastUserMessage docs cid)))), []))
      else
        (case load_recent w options of
           Inl e \<Rightarrow> (Inl (failure e), [])
         | Inr recent \<Rightarrow>
             (let pl = createDynamicDataPlan (planningOracle w) userQuery recent;
                  plan = fst pl;
                  cs0 = replicate (snd pl) OracleCall
              in if isCasual plan then (Inr (casual_result (response plan)), cs0)
                 else (let r = analyse w userQuery plan in (fst r, cs0 @ snd r)))))"

section \<open>Example inputs\<close>

text \<open>Aggregated data with one successful and one failed source and an indicator table.\<close>

definition example_data :: aggregatedData where
  "example_data =
     \<lparr>sources = [\<lparr>type = ''bybit'', resource = ''tickers'', status = ''success'', error = None\<rparr>,
                 \<lparr>type = ''web'', resource = ''q'', status = ''failed'', error = Some ''timeout''\<rparr>],
      bybitData = Map.empty, livePrice = None, webContent = Some [],
      enhancedIndicators = Some (JObj []), fallbackTickers = None, confidenceScore = None\<rparr>"

text \<open>The same, with both sources failed.\<close>

definition example_data_failed :: aggregatedData where
  "example_data_failed =
     example_data\<lparr>sources :=
       [\<lparr>type = ''bybit'', resource = ''tickers'', status = ''failed'', error = Some ''down''\<rparr>,
        \<lparr>type = ''web'', resource = ''q'', status = ''failed'', error = Some ''timeout''\<rparr>]\<rparr>"

text \<open>Fifteen closes: fourteen rises, and thirteen rises followed by one fall.\<close>

definition rising_closes :: "real list" where
  "rising_closes = [1, 2, 3, 4, 5, 6, 7, 8, 9, 10, 11, 12, 13, 14, 15]"

definition mixed_closes :: "real list" where
  "mixed_closes = [10, 11, 12, 13, 14, 15, 16, 17, 18, 19, 20, 21, 22, 23, 20]"

text \<open>
  A pool initialized while Binance did not answer its probe, and providers that all have
  an answer for every symbol.
\<close>

definition example_pool :: fallback_state where
  "example_pool = initialize (\<lambda>p. p \<noteq> binance) new_fallback"


definition btc_mapping :: "(provider_id \<times> string) list" where
  "btc_mapping = [(binance, ''BTCUSDT''), (coinbase, ''BTC-USD''), (coingecko, ''bitcoin'')]"

text \<open>The plan for the query \<^verbatim>\<open>Bitcoin price\<close>.\<close>

definition bitcoin_price_plan :: data_plan where
  "bitcoin_price_plan =
     \<lparr>isCasual = False, response = None,
      requiredData = Some
        \<lparr>bybit = Some [(''tickers'', \<lparr>symbol = ''BTCUSDT'', interval = None, limit = None\<rparr>)],
         wantsLivePrice = True,
         webSearch = Some [''BTCUSDT current price''],
         technicalIndicators = Some []\<rparr>\<rparr>"

text \<open>
  A store with two user turns in chat \<^verbatim>\<open>c1\<close> and one in chat \<^verbatim>\<open>c2\<close>, and a world in
  which the planning oracle, Bybit, every backup provider, every live price service and
  the web search fail.
\<close>

definition example_chat :: "chat_message list" where
  "example_chat =
     [\<lparr>chatId = ''c1'', mtype = ''user'', content = ''what'' @ [CHR 0x27] @ ''s ETH price'',
       timestamp = 1\<rparr>,
      \<lparr>chatId = ''c1'', mtype = ''ai'', content = ''ETH trades at 3000'', timestamp = 2\<rparr>,
      \<lparr>chatId = ''c1'', mtype = ''user'', content = ''analyze BTC'', timestamp = 3\<rparr>,
      \<lparr>chatId = ''c2'', mtype = ''user'', content = ''hello'', timestamp = 4\<rparr>]"

definition outage_world :: world where
  "outage_world =
     \<lparr>memory = True, chatMessages = Inr example_chat, longTermMemory = None,
      planningOracle = Inl ''timeout'',
      bybitClient = (\<lambda>dataType params. Inl ''timeout''),
      fallback = example_pool,
      fetchOnDemand = (\<lambda>p s. None),
      clock = 0,
      priceApi = (\<lambda>api s. Inl ''timeout''),
      fetchTavilyContext = (\<lambda>q. None),
      calculateRequestedIndicators = (\<lambda>kline names. Inr (JObj [])),
      generateFinalAnalysis = (\<lambda>a. Inr ''analysis'')\<rparr>"

text \<open>
  The same world with Bybit answering, a request without chat, the data the plan for
  \<^verbatim>\<open>Bitcoin price\<close> requires, and the source results and aggregated data of the two runs.
\<close>

definition price_outage_world :: world where
  "price_outage_world =
     outage_world\<lparr>bybitClient :=
       (\<lambda>dataType params. Inr \<lparr>retCode = 0, retMsg = ''OK'', payload = JArr []\<rparr>)\<rparr>"

definition no_chat :: query_options where
  "no_chat = \<lparr>opt_chatId = None, opt_userId = None\<rparr>"

definition bitcoin_required :: required_data where
  "bitcoin_required =
     \<lparr>bybit = Some [(''tickers'', \<lparr>symbol = ''BTCUSDT'', interval = None, limit = None\<rparr>)],
      wantsLivePrice = True,
      webSearch = Some [''BTCUSDT current price''],
      technicalIndicators = Some []\<rparr>"

definition tickers_failed :: source_result where
  "tickers_failed =
     \<lparr>type = ''bybit'', resource = ''tickers'', status = ''failed'', error = Some ''timeout''\<rparr>"

definition tickers_ok :: source_result where
  "tickers_ok = \<lparr>type = ''bybit'', resource = ''tickers'', status = ''success'', error = None\<rparr>"

definition web_ok :: source_result where
  "web_ok =
     \<lparr>type = ''web'', resource = ''BTCUSDT current price'', status = ''success'', error = None\<rparr>"

definition outage_data :: aggregatedData where
  "outage_data =
     \<lparr>sources = [tickers_failed, web_ok], bybitData = Map.empty, livePrice = None,
      webContent = Some [(''BTCUSDT current price'', ''No web results found.'')],
      enhancedIndicators = None, fallbackTickers = None, confidenceScore = None\<rparr>"

definition price_outage_data :: aggregatedData where
  "price_outage_data =
     \<lparr>sources = [tickers_ok, web_ok], bybitData = [''tickers'' \<mapsto> JArr []], livePrice = None,
      webContent = Some [(''BTCUSDT current price'', ''No web results found.'')],
      enhancedIndicators = None, fallbackTickers = None, confidenceScore = None\<rparr>"

section \<open>Properties of the confidence scorer\<close>

lemma confidence_value:
  "(let c0 = (50 :: real);
         successfulSources = length (filter (\<lambda>s. status s = ''success'') (sources a));
         totalSources = length (sources a);
         c1 = (if totalSources > 0
               then c0 + (real successfulSources / real totalSources) * 30 else c0);
         c2 = (if livePrice a \<noteq> None then c1 + 10 else c1);
         c3 = (if enhancedIndicators a \<noteq> None then c2 + 10 else c2);
         c4 = (case webContent a of
                 None \<Rightarrow> c3
               | Some w \<Rightarrow> if length w > 0 then c3 + 5 else c3)
     in c4) = score_sum a"
  unfolding Let_def successCount_def totalCount_def bonuses_def hasWebContent_def score_sum_def
  by (cases "livePrice a"; cases "enhancedIndicators a"; cases "webContent a";
      cases "sources a = []"; simp)

lemma confidence_eq: "calculateConfidenceScore a = min (max (Math_round (score_sum a)) 0) 100"
  using confidence_value [of a] unfolding calculateConfidenceScore_def Let_def by simp

lemma success_le_total: "successCount a \<le> totalCount a"
  by (simp add: successCount_def totalCount_def)

lemma bonuses_nonneg: "0 \<le> bonuses a"
  by (simp add: bonuses_def)

lemma score_sum_ge_50: "50 \<le> score_sum a"
proof -
  have "0 \<le> (if totalCount a > 0 then 30 * (real (successCount a) / real (totalCount a)) else 0)"
    by simp
  then show ?thesis using bonuses_nonneg [of a] unfolding score_sum_def by linarith
qed

lemma Math_round_mono: "x \<le> y \<Longrightarrow> Math_round x \<le> Math_round y"
  unfolding Math_round_def by (rule floor_mono) simp

lemma Math_round_of_int: "Math_round (of_int n) = n"
  unfolding Math_round_def by linarith

lemma score_ge_50: "50 \<le> calculateConfidenceScore a"
proof -
  have "Math_round (of_int 50) \<le> Math_round (score_sum a)"
    by (rule Math_round_mono) (simp add: score_sum_ge_50)
  then have "50 \<le> Math_round (score_sum a)" by (simp only: Math_round_of_int)
  then show ?thesis by (simp add: confidence_eq)
qed

lemma score_le_100: "calculateConfidenceScore a \<le> 100"
  by (simp add: confidence_eq)

lemma score_sum_mono:
  assumes "totalCount a = totalCount b" "bonuses a = bonuses b" "successCount a \<le> successCount b"
  shows "score_sum a \<le> score_sum b"
  using assms by (simp add: score_sum_def divide_right_mono)

lemma score_mono:
  assumes "totalCount a = totalCount b" "bonuses a = bonuses b" "successCount a \<le> successCount b"
  shows "calculateConfidenceScore a \<le> calculateConfidenceScore b"
proof -
  have "Math_round (score_sum a) \<le> Math_round (score_sum b)"
    by (rule Math_round_mono) (rule score_sum_mono [OF assms])
  then show ?thesis by (simp add: confidence_eq)
qed

lemma bonuses_int: "bonuses a = of_int (int_bonuses a)"
  by (simp add: bonuses_def int_bonuses_def)

lemma int_bonuses_bounds: "0 \<le> int_bonuses a" "int_bonuses a \<le> 25"
  by (simp_all add: int_bonuses_def)

lemma score_all_failed:
  assumes "successCount a = 0"
  shows "calculateConfidenceScore a = 50 + int_bonuses a"
proof -
  have "score_sum a = of_int (50 + int_bonuses a)"
    using assms by (simp add: score_sum_def bonuses_int)
  then have "Math_round (score_sum a) = 50 + int_bonuses a"
    by (simp only: Math_round_of_int)
  then show ?thesis using int_bonuses_bounds [of a] by (simp add: confidence_eq)
qed

lemma example_data_counts:
  "totalCount example_data = 2" "successCount example_data = 1"
  "livePrice example_data = None" "enhancedIndicators example_data = Some (JObj [])"
  "hasWebContent example_data = False"
  by (simp_all add: example_data_def totalCount_def successCount_def hasWebContent_def)

lemma example_data_failed_counts:
  "totalCount example_data_failed = 2" "successCount example_data_failed = 0"
  "livePrice example_data_failed = None"
  "enhancedIndicators example_data_failed = Some (JObj [])"
  "hasWebContent example_data_failed = False"
  by (simp_all add: example_data_def example_data_failed_def totalCount_def successCount_def
        hasWebContent_def)

text \<open>
  C2: the score is the rounded sum 50 + 30 * (successCount / totalCount) (the ratio term
  only when totalCount is positive) + 10 for a live price + 10 for indicator values + 5
  for non-empty web content, clamped to the interval from 0 to 100. The scorer is a
  function of the aggregated data alone, so equal inputs give equal scores.
\<close>

theorem confidence_score_formula:
  "calculateConfidenceScore a = spec_score a
   \<and> (\<forall>b. b = a \<longrightarrow> calculateConfidenceScore b = calculateConfidenceScore a)"
  by (simp add: confidence_eq spec_score_def Math_round_def round_def min.commute max.commute)

theorem confidence_score_formula_witness:
  "calculateConfidenceScore example_data = 75"
  using confidence_score_formula [of example_data]
  by (simp add: spec_score_def score_sum_def bonuses_def example_data_counts round_def)

text \<open>
  C9: the score lies between 0 and 100, and of two aggregated data with the same number
  of source results and the same presence of a live price, of indicator values and of web
  content, the one with no fewer successful results has no smaller score.
\<close>

theorem confidence_score_bounded_monotone:
  "0 \<le> calculateConfidenceScore a \<and> calculateConfidenceScore a \<le> 100
   \<and> (totalCount a = totalCount b
        \<and> (livePrice a = None \<longleftrightarrow> livePrice b = None)
        \<and> (enhancedIndicators a = None \<longleftrightarrow> enhancedIndicators b = None)
        \<and> (hasWebContent a \<longleftrightarrow> hasWebContent b)
        \<and> successCount a \<le> successCount b
       \<longrightarrow> calculateConfidenceScore a \<le> calculateConfidenceScore b)"
proof -
  have lo: "0 \<le> calculateConfidenceScore a"
    using score_ge_50 [of a] by linarith
  have mono: "calculateConfidenceScore a \<le> calculateConfidenceScore b"
    if h: "totalCount a = totalCount b" "livePrice a = None \<longleftrightarrow> livePrice b = None"
      "enhancedIndicators a = None \<longleftrightarrow> enhancedIndicators b = None"
      "hasWebContent a \<longleftrightarrow> hasWebContent b" "successCount a \<le> successCount b"
  proof -
    have "bonuses a = bonuses b"
      using h(2,3,4) by (simp add: bonuses_def)
    with h(1) show ?thesis using h(5) by (rule score_mono)
  qed
  show ?thesis
  proof (intro conjI impI)
    show "0 \<le> calculateConfidenceScore a" by (rule lo)
    show "calculateConfidenceScore a \<le> 100" by (rule score_le_100)
  next
    assume "totalCount a = totalCount b
        \<and> (livePrice a = None \<longleftrightarrow> livePrice b = None)
        \<and> (enhancedIndicators a = None \<longleftrightarrow> enhancedIndicators b = None)
        \<and> (hasWebContent a \<longleftrightarrow> hasWebContent b)
        \<and> successCount a \<le> successCount b"
    then show "calculateConfidenceScore a \<le> calculateConfidenceScore b"
      using mono by simp
  qed
qed

theorem confidence_score_bounded_monotone_witness:
  "calculateConfidenceScore example_data_failed \<le> calculateConfidenceScore example_data
   \<and> successCount example_data_failed < successCount example_data
   \<and> totalCount example_data_failed = totalCount example_data"
  using confidence_score_bounded_monotone [of example_data_failed example_data]
  by (simp add: example_data_counts example_data_failed_counts)

text \<open>
  C10: the score is at least 50 and at most 100, so the lower clamp at 0 never acts; when
  no source result is successful the score is 50 plus the bonuses for a live price (10),
  for indicator values (10) and for non-empty web content (5).
\<close>

theorem confidence_score_at_least_50:
  "50 \<le> calculateConfidenceScore a \<and> calculateConfidenceScore a \<le> 100
   \<and> max (Math_round (score_sum a)) 0 = Math_round (score_sum a)
   \<and> (successCount a = 0 \<longrightarrow> calculateConfidenceScore a = 50 + int_bonuses a)"
proof -
  have "50 \<le> calculateConfidenceScore a" by (rule score_ge_50)
  moreover have "calculateConfidenceScore a \<le> 100" by (rule score_le_100)
  moreover have "max (Math_round (score_sum a)) 0 = Math_round (score_sum a)"
  proof -
    have "Math_round (of_int 50) \<le> Math_round (score_sum a)"
      by (rule Math_round_mono) (simp add: score_sum_ge_50)
    then have "50 \<le> Math_round (score_sum a)" by (simp only: Math_round_of_int)
    then show ?thesis by simp
  qed
  moreover have "successCount a = 0 \<longrightarrow> calculateConfidenceScore a = 50 + int_bonuses a"
    using score_all_failed by blast
  ultimately show ?thesis by blast
qed

theorem confidence_score_at_least_50_witness:
  "successCount example_data_failed = 0 \<and> calculateConfidenceScore example_data_failed = 60"
  using confidence_score_at_least_50 [of example_data_failed]
  by (simp add: example_data_failed_counts int_bonuses_def)

section \<open>Properties of the indicator library\<close>

lemma rsi_step_pos:
  "closes ! i - closes ! (i - 1) > 0 \<Longrightarrow>
   rsi_step closes (g, l) i = (g + (closes ! i - closes ! (i - 1)), l)"
  by (simp add: rsi_step_def)

lemma rsi_step_nonpos:
  "\<not> closes ! i - closes ! (i - 1) > 0 \<Longrightarrow>
   rsi_step closes (g, l) i = (g, l - (closes ! i - closes ! (i - 1)))"
  by (simp add: rsi_step_def)

lemma rsi_fold:
  "foldl (rsi_step closes) (g, l) is =
     (g + sum_list (filter (\<lambda>d. d > 0) (map (\<lambda>i. closes ! i - closes ! (i - 1)) is)),
      l + sum_list (map (\<lambda>d. - d) (filter (\<lambda>d. d < 0) (map (\<lambda>i. closes ! i - closes ! (i - 1)) is))))"
proof (induction "is" arbitrary: g l)
  case Nil
  then show ?case by simp
next
  case (Cons i "is")
  show ?case
  proof (cases "closes ! i - closes ! (i - 1) > 0")
    case True
    then show ?thesis by (simp add: rsi_step_pos Cons.IH)
  next
    case False
    then show ?thesis
      by (cases "closes ! i - closes ! (i - 1) = 0") (simp_all add: rsi_step_nonpos Cons.IH)
  qed
qed

lemma rsi_unfold:
  assumes "period + 1 \<le> length closes"
  shows "RSI closes period =
           Some (if spec_avgLoss closes period = 0 then 100
                 else 100 - 100 / (1 + spec_avgGain closes period / spec_avgLoss closes period))"
  using assms
  by (simp add: RSI_def rsi_fold [of closes 0 0] Let_def spec_avgLoss_def spec_avgGain_def trailing_deltas_def)

lemma sum_neg_zero_iff:
  "sum_list (map (\<lambda>d. - d) (filter (\<lambda>d. d < 0) ds)) = 0 \<longleftrightarrow> (\<forall>d \<in> set ds. (0::real) \<le> d)"
proof (induction ds)
  case Nil
  then show ?case by simp
next
  case (Cons d ds)
  have nn: "0 \<le> sum_list (map (\<lambda>d. - d) (filter (\<lambda>d. d < 0) ds))"
    by (rule sum_list_nonneg) auto
  show ?case
  proof (cases "d < 0")
    case True
    then show ?thesis using nn by auto
  next
    case False
    then show ?thesis using Cons.IH by auto
  qed
qed

lemma avgLoss_zero_iff:
  assumes "0 < period"
  shows "spec_avgLoss closes period = 0 \<longleftrightarrow> (\<forall>d \<in> set (trailing_deltas closes period). 0 \<le> d)"
  using assms by (simp add: spec_avgLoss_def sum_neg_zero_iff)

text \<open>
  C3: each of SMA, EMA, WMA, HMA and BollingerBands returns \<^verbatim>\<open>null\<close> on a series shorter
  than the period, RSI on a series shorter than the period plus one, MACD on a series
  shorter than the slow period plus the signal period. The functions of the model are
  total: no path of the source below these guards throws.
\<close>

theorem indicators_insufficient_data:
  "(length values < period \<longrightarrow>
      SMA values period = None \<and> EMA values period = None \<and> WMA values period = None
      \<and> HMA values period = None \<and> BollingerBands values period multiplier = None)
   \<and> (length values < period + 1 \<longrightarrow> RSI values period = None)
   \<and> (length values < slowPeriod + signalPeriod \<longrightarrow>
        MACD values fastPeriod slowPeriod signalPeriod = None)"
  by (simp add: SMA_def EMA_def WMA_def HMA_def BollingerBands_def RSI_def MACD_def)

theorem indicators_insufficient_data_witness:
  "SMA [1, 2] 3 = None \<and> EMA [1, 2] 3 = None \<and> WMA [1, 2] 3 = None \<and> HMA [1, 2] 3 = None
   \<and> BollingerBands [1, 2] 3 2 = None \<and> RSI [1, 2, 3] 3 = None \<and> MACD [1, 2, 3] 12 2 2 = None"
  using indicators_insufficient_data [of "[1, 2]" 3 2 0 0 0]
        indicators_insufficient_data [of "[1, 2, 3]" 3 2 2 2 12]
  by simp


text \<open>
  C8: on at least 15 closes, RSI with period 14 is 100 when the average loss over the
  trailing window of 14 price changes is 0, which is the case exactly when no change in
  the window is negative; otherwise it is 100 - 100 / (1 + avgGain / avgLoss), the two
  averages being the simple averages of the rises and of the falls over the window.
\<close>

theorem rsi_period_14:
  assumes "15 \<le> length closes"
  shows "RSI closes 14 =
           Some (if spec_avgLoss closes 14 = 0 then 100
                 else 100 - 100 / (1 + spec_avgGain closes 14 / spec_avgLoss closes 14))
         \<and> (spec_avgLoss closes 14 = 0 \<longleftrightarrow> (\<forall>d \<in> set (trailing_deltas closes 14). 0 \<le> d))"
  using rsi_unfold [of 14 closes] avgLoss_zero_iff [of 14 closes] assms by simp

lemma upt_1_15: "[Suc 0 ..< 15] = [1, 2, 3, 4, 5, 6, 7, 8, 9, 10, 11, 12, 13, 14]"
  by (simp add: upt_rec)

theorem rsi_period_14_witness:
  "15 \<le> length mixed_closes
   \<and> RSI mixed_closes 14 = Some (100 - 100 / (1 + (13 / 14) / (3 / 14)))
   \<and> RSI rising_closes 14 = Some 100"
  using rsi_period_14 [of mixed_closes] rsi_period_14 [of rising_closes]
  by (simp add: mixed_closes_def rising_closes_def spec_avgLoss_def spec_avgGain_def
        trailing_deltas_def upt_1_15)

section \<open>Properties of the fallback pool\<close>

lemma try_providers_eq:
  "try_providers fetch ps mapping xs =
     (asked (answer_of fetch mapping) (filter (\<lambda>p. active (ps p) \<and> has_mapping mapping p) xs),
      first_answer (answer_of fetch mapping)
        (filter (\<lambda>p. active (ps p) \<and> has_mapping mapping p) xs))"
proof (induction xs)
  case Nil
  then show ?case by (simp add: asked_def first_answer_def)
next
  case (Cons p xs)
  show ?case
  proof (cases "map_of mapping p")
    case None
    then show ?thesis using Cons.IH by (simp add: has_mapping_def)
  next
    case (Some s)
    show ?thesis
    proof (cases "active (ps p) \<and> s \<noteq> []")
      case False
      then show ?thesis using Some Cons.IH by (auto simp: has_mapping_def)
    next
      case True
      show ?thesis
      proof (cases "fetch p s")
        case None
        then show ?thesis using Some True Cons.IH
          by (simp add: has_mapping_def answer_of_def asked_def first_answer_def)
      next
        case (Some d)
        then show ?thesis using \<open>map_of mapping p = Some s\<close> True
          by (simp add: has_mapping_def answer_of_def asked_def first_answer_def)
      qed
    qed
  qed
qed









lemma getUniversalData_mapped:
  assumes "map_of universalSymbolMap sy = Some mapping"
  shows "getUniversalData fetch st sy =
           (asked (answer_of fetch mapping) (candidates (providers st) mapping),
            first_answer (answer_of fetch mapping) (candidates (providers st) mapping))"
  using assms by (simp add: getUniversalData_def try_providers_eq candidates_def)









lemma example_pool_state:
  "initialized example_pool"
  "active (providers example_pool binance) = False"
  "active (providers example_pool coinbase) = True"
  "active (providers example_pool coingecko) = True"
  "priority (providers example_pool binance) = 1"
  "priority (providers example_pool coinbase) = 2"
  "priority (providers example_pool coingecko) = 3"
  by (simp_all add: example_pool_def initialize_def initialize_providers_def new_fallback_def
        provider_keys_def Let_def)



lemma example_candidates: "candidates (providers example_pool) btc_mapping = [coinbase, coingecko]"
  by (simp add: candidates_def provider_keys_def example_pool_state has_mapping_def btc_mapping_def)

lemma btc_mapped: "map_of universalSymbolMap ''BTCUSDT'' = Some btc_mapping"
  by (simp add: universalSymbolMap_def btc_mapping_def)




section \<open>Properties of the planner\<close>

lemma lower_bitcoin_price: "toLowerCase ''Bitcoin price'' = ''bitcoin price''"
  by (simp add: toLowerCase_def upper_chars_def lower_chars_def)

lemma fallback_plan_bitcoin_price: "createFallbackPlan ''Bitcoin price'' = bitcoin_price_plan"
  by (simp add: createFallbackPlan_def lower_bitcoin_price planSymbolMap_def startsWith_def
        bitcoin_price_plan_def Let_def)

lemma not_casual_bitcoin_price: "\<not> isCasualOnly ''Bitcoin price''"
  by (simp add: isCasualOnly_def lower_bitcoin_price trim_def is_space_def casualKeywords_def)

lemma fallback_plan_not_casual: "isCasual (createFallbackPlan userQuery) = False"
  by (simp add: createFallbackPlan_def Let_def)

lemma isCasualOnly_iff:
  "isCasualOnly userQuery \<longleftrightarrow>
     trim (toLowerCase userQuery)
       \<in> {''hi'', ''hi!'', ''hello'', ''hello!'', ''thanks'', ''thanks!'', ''thank you'',
          ''thank you!'', ''hey'', ''hey!'', ''good morning'', ''good morning!'',
          ''good evening'', ''good evening!''}"
  by (auto simp: isCasualOnly_def casualKeywords_def Let_def)

text \<open>
  C7: the planner asks the oracle unless the query, in lower case and trimmed, is one of
  the seven greetings or one of them with an exclamation mark, and there is no recent
  context; then it answers with the greeting and the oracle is not called, so no call can
  fail. When the oracle is asked and the call fails, the plan is that of
  \<^verbatim>\<open>createFallbackPlan\<close>, a function of the query text alone, and the failed call is the
  only call made. That plan is never casual. For the query \<^verbatim>\<open>Bitcoin price\<close> it asks
  Bybit for \<^verbatim>\<open>tickers\<close> with symbol \<^verbatim>\<open>BTCUSDT\<close> and requests the live price.
\<close>

theorem planner_fallback:
  "(\<not> (trim (toLowerCase userQuery)
          \<in> {''hi'', ''hi!'', ''hello'', ''hello!'', ''thanks'', ''thanks!'', ''thank you'',
          ''thank you!'', ''hey'', ''hey!'', ''good morning'', ''good morning!'',
          ''good evening'', ''good evening!''}
        \<and> recentContext = []) \<longrightarrow>
      createDynamicDataPlan (Inl e) userQuery recentContext = (createFallbackPlan userQuery, 1))
   \<and> (trim (toLowerCase userQuery)
          \<in> {''hi'', ''hi!'', ''hello'', ''hello!'', ''thanks'', ''thanks!'', ''thank you'',
          ''thank you!'', ''hey'', ''hey!'', ''good morning'', ''good morning!'',
          ''good evening'', ''good evening!''}
        \<and> recentContext = [] \<longrightarrow>
      createDynamicDataPlan oracle userQuery recentContext
        = (\<lparr>isCasual = True, response = Some casual_greeting, requiredData = None\<rparr>, 0))
   \<and> isCasual (createFallbackPlan userQuery) = False
   \<and> createDynamicDataPlan (Inl e) ''Bitcoin price'' recentContext
       = (\<lparr>isCasual = False, response = None,
            requiredData = Some
              \<lparr>bybit = Some [(''tickers'',
                              \<lparr>symbol = ''BTCUSDT'', interval = None, limit = None\<rparr>)],
               wantsLivePrice = True,
               webSearch = Some [''BTCUSDT current price''],
               technicalIndicators = Some []\<rparr>\<rparr>, 1)"
proof (intro conjI impI)
  assume "\<not> (trim (toLowerCase userQuery)
          \<in> {''hi'', ''hi!'', ''hello'', ''hello!'', ''thanks'', ''thanks!'', ''thank you'',
          ''thank you!'', ''hey'', ''hey!'', ''good morning'', ''good morning!'',
          ''good evening'', ''good evening!''}
        \<and> recentContext = [])"
  then have "\<not> (isCasualOnly userQuery \<and> length recentContext = 0)"
    using isCasualOnly_iff [of userQuery] by simp
  then show "createDynamicDataPlan (Inl e) userQuery recentContext = (createFallbackPlan userQuery, 1)"
    by (simp add: createDynamicDataPlan_def)
next
  assume "trim (toLowerCase userQuery)
          \<in> {''hi'', ''hi!'', ''hello'', ''hello!'', ''thanks'', ''thanks!'', ''thank you'',
          ''thank you!'', ''hey'', ''hey!'', ''good morning'', ''good morning!'',
          ''good evening'', ''good evening!''}
        \<and> recentContext = []"
  then have "isCasualOnly userQuery \<and> length recentContext = 0"
    using isCasualOnly_iff [of userQuery] by simp
  then show "createDynamicDataPlan oracle userQuery recentContext
        = (\<lparr>isCasual = True, response = Some casual_greeting, requiredData = None\<rparr>, 0)"
    by (simp add: createDynamicDataPlan_def)
next
  show "isCasual (createFallbackPlan userQuery) = False" by (rule fallback_plan_not_casual)
  show "createDynamicDataPlan (Inl e) ''Bitcoin price'' recentContext
       = (\<lparr>isCasual = False, response = None,
            requiredData = Some
              \<lparr>bybit = Some [(''tickers'',
                              \<lparr>symbol = ''BTCUSDT'', interval = None, limit = None\<rparr>)],
               wantsLivePrice = True,
               webSearch = Some [''BTCUSDT current price''],
               technicalIndicators = Some []\<rparr>\<rparr>, 1)"
    by (simp add: createDynamicDataPlan_def not_casual_bitcoin_price fallback_plan_bitcoin_price
          bitcoin_price_plan_def)
qed

lemma example_greeting:
  "trim (toLowerCase (CHR 0xA0 # '' Hi!'' @ [CHR 0x0A])) = ''hi!''"
  by (simp add: trim_def is_space_def toLowerCase_def upper_chars_def lower_chars_def)

lemma example_outlook_lower:
  "toLowerCase ''Ethereum technical outlook'' = ''ethereum technical outlook''"
  by (simp add: toLowerCase_def upper_chars_def lower_chars_def)

lemma example_outlook_trim:
  "trim (toLowerCase ''Ethereum technical outlook'') = ''ethereum technical outlook''"
  by (simp add: example_outlook_lower trim_def is_space_def)

theorem planner_fallback_witness:
  "createDynamicDataPlan (Inl ''timeout'') ''Ethereum technical outlook'' []
       = (\<lparr>isCasual = False, response = None,
           requiredData = Some
             \<lparr>bybit = Some [(''kline'', \<lparr>symbol = ''ETHUSDT'', interval = Some ''D'', limit = Some 50\<rparr>),
                            (''tickers'', \<lparr>symbol = ''ETHUSDT'', interval = None, limit = None\<rparr>)],
              wantsLivePrice = False,
              webSearch = Some [''ETHUSDT technical analysis''],
              technicalIndicators = Some [''SMA20'', ''RSI14'', ''MACD'']\<rparr>\<rparr>, 1)
   \<and> createDynamicDataPlan (Inl ''timeout'') (CHR 0xA0 # '' Hi!'' @ [CHR 0x0A]) []
       = (\<lparr>isCasual = True, response = Some casual_greeting, requiredData = None\<rparr>, 0)
   \<and> createDynamicDataPlan (Inl ''timeout'') (CHR 0xA0 # '' Hi!'' @ [CHR 0x0A])
        [\<lparr>role = ''user'', ctx_content = ''analyze BTC'', ctx_timestamp = 3\<rparr>]
       = (createFallbackPlan (CHR 0xA0 # '' Hi!'' @ [CHR 0x0A]), 1)"
proof -
  have fp: "createFallbackPlan ''Ethereum technical outlook''
       = \<lparr>isCasual = False, response = None,
           requiredData = Some
             \<lparr>bybit = Some [(''kline'', \<lparr>symbol = ''ETHUSDT'', interval = Some ''D'', limit = Some 50\<rparr>),
                            (''tickers'', \<lparr>symbol = ''ETHUSDT'', interval = None, limit = None\<rparr>)],
              wantsLivePrice = False,
              webSearch = Some [''ETHUSDT technical analysis''],
              technicalIndicators = Some [''SMA20'', ''RSI14'', ''MACD'']\<rparr>\<rparr>"
    by (simp add: createFallbackPlan_def example_outlook_lower planSymbolMap_def startsWith_def
          Let_def)
  have h1: "\<not> (trim (toLowerCase ''Ethereum technical outlook'')
          \<in> {''hi'', ''hi!'', ''hello'', ''hello!'', ''thanks'', ''thanks!'', ''thank you'',
          ''thank you!'', ''hey'', ''hey!'', ''good morning'', ''good morning!'',
          ''good evening'', ''good evening!''}
        \<and> ([] :: context_message list) = [])"
    by (simp add: example_outlook_trim)
  have h2: "trim (toLowerCase (CHR 0xA0 # '' Hi!'' @ [CHR 0x0A]))
          \<in> {''hi'', ''hi!'', ''hello'', ''hello!'', ''thanks'', ''thanks!'', ''thank you'',
          ''thank you!'', ''hey'', ''hey!'', ''good morning'', ''good morning!'',
          ''good evening'', ''good evening!''}
        \<and> ([] :: context_message list) = []"
    by (simp only: example_greeting) simp
  have h3: "\<not> (trim (toLowerCase (CHR 0xA0 # '' Hi!'' @ [CHR 0x0A]))
          \<in> {''hi'', ''hi!'', ''hello'', ''hello!'', ''thanks'', ''thanks!'', ''thank you'',
          ''thank you!'', ''hey'', ''hey!'', ''good morning'', ''good morning!'',
          ''good evening'', ''good evening!''}
        \<and> [\<lparr>role = ''user'', ctx_content = ''analyze BTC'', ctx_timestamp = 3\<rparr>] = [])"
    by simp
  have r1: "createDynamicDataPlan (Inl ''timeout'') ''Ethereum technical outlook'' []
       = (\<lparr>isCasual = False, response = None,
           requiredData = Some
             \<lparr>bybit = Some [(''kline'', \<lparr>symbol = ''ETHUSDT'', interval = Some ''D'', limit = Some 50\<rparr>),
                            (''tickers'', \<lparr>symbol = ''ETHUSDT'', interval = None, limit = None\<rparr>)],
              wantsLivePrice = False,
              webSearch = Some [''ETHUSDT technical analysis''],
              technicalIndicators = Some [''SMA20'', ''RSI14'', ''MACD'']\<rparr>\<rparr>, 1)"
    using planner_fallback [THEN conjunct1, THEN mp, OF h1, of "''timeout''"]
    by (simp only: fp)
  have r2: "createDynamicDataPlan (Inl ''timeout'') (CHR 0xA0 # '' Hi!'' @ [CHR 0x0A]) []
       = (\<lparr>isCasual = True, response = Some casual_greeting, requiredData = None\<rparr>, 0)"
    by (rule planner_fallback [THEN conjunct2, THEN conjunct1, THEN mp, OF h2])
  have r3: "createDynamicDataPlan (Inl ''timeout'') (CHR 0xA0 # '' Hi!'' @ [CHR 0x0A])
        [\<lparr>role = ''user'', ctx_content = ''analyze BTC'', ctx_timestamp = 3\<rparr>]
       = (createFallbackPlan (CHR 0xA0 # '' Hi!'' @ [CHR 0x0A]), 1)"
    by (rule planner_fallback [THEN conjunct1, THEN mp, OF h3])
  show ?thesis using r1 r2 r3 by blast
qed

section \<open>Properties of the engine\<close>

lemma getLastUserMessage_short:
  assumes "length (user_turns_desc docs cid) < 2"
  shows "getLastUserMessage docs cid = None"
  using assms
  by (simp add: getLastUserMessage_def find_desc_def user_turns_desc_def Let_def drop_take
        split: list.splits)

lemma getLastUserMessage_second:
  assumes "2 \<le> length (user_turns_desc docs cid)" "content (user_turns_desc docs cid ! 1) \<noteq> []"
  shows "getLastUserMessage docs cid = Some (content (user_turns_desc docs cid ! 1))"
proof -
  obtain m1 m2 rest where u: "user_turns_desc docs cid = m1 # m2 # rest"
    using assms(1) by (cases "user_turns_desc docs cid"; cases "tl (user_turns_desc docs cid)") auto
  have "find_desc (\<lambda>m. chatId m = cid \<and> mtype m = ''user'') 2 docs = take 2 (user_turns_desc docs cid)"
    by (simp add: find_desc_def user_turns_desc_def)
  then have "find_desc (\<lambda>m. chatId m = cid \<and> mtype m = ''user'') 2 docs = [m1, m2]"
    by (simp add: u)
  then show ?thesis using assms(2) by (simp add: getLastUserMessage_def u)
qed

text \<open>
  C6: when the query, trimmed and in lower case, is one of the seven fixed phrasings, a
  chat id is given, the engine has a memory and the store answers, the engine makes no
  call (no planning, no fetch) and returns an object with \<^verbatim>\<open>isAnalysis = false\<close> and a
  response and nothing else. The response quotes the content of the second most recent
  user turn of the chat when there are at least two turns (the chat route stores no empty
  message), and says that no previous question was found when there are fewer than two.
\<close>

theorem last_question_bypass:
  assumes "toLowerCase (trim userQuery)
           \<in> {''what did i ask just now'', ''what did i ask just now?'', ''what did i ask'',
             ''what was my last question'', ''last question?'',
             ''what was my previous question'', ''my last question''}"
    and "opt_chatId options = Some cid" and "cid \<noteq> []"
    and "memory w" and "chatMessages w = Inr docs"
  shows "(\<exists>answer. handleUserQuery w userQuery options
            = (Inr \<lparr>isAnalysis = False, res_response = Some (answer),
                   dataSources = None, hasLivePrice = None, res_confidenceScore = None\<rparr>, []))
         \<and> (2 \<le> length (user_turns_desc docs cid) \<and> content (user_turns_desc docs cid ! 1) \<noteq> []
              \<longrightarrow> handleUserQuery w userQuery options
                    = (Inr \<lparr>isAnalysis = False, res_response = Some (''Your previous question was: '' @ [CHR 0x22]
                     @ content (user_turns_desc docs cid ! 1) @ [CHR 0x22]),
                   dataSources = None, hasLivePrice = None, res_confidenceScore = None\<rparr>, []))
         \<and> (length (user_turns_desc docs cid) < 2
              \<longrightarrow> handleUserQuery w userQuery options
                    = (Inr \<lparr>isAnalysis = False, res_response = Some (''No previous question found in this chat.''),
                   dataSources = None, hasLivePrice = None, res_confidenceScore = None\<rparr>, []))"
proof -
  have q: "isLastQuestionQuery userQuery"
    using assms(1) by (simp add: isLastQuestionQuery_def last_question_phrases_def)
  have c: "chatId_of options = Some cid"
    using assms(2,3) by (simp add: chatId_of_def)
  have run: "handleUserQuery w userQuery options
           = (Inr \<lparr>isAnalysis = False, res_response = Some (last_question_response (getLastUserMessage docs cid)),
                   dataSources = None, hasLivePrice = None, res_confidenceScore = None\<rparr>, [])"
    using q assms(4,5) by (simp add: handleUserQuery_def c casual_result_def)
  have some: "\<exists>answer. handleUserQuery w userQuery options
            = (Inr \<lparr>isAnalysis = False, res_response = Some (answer),
                   dataSources = None, hasLivePrice = None, res_confidenceScore = None\<rparr>, [])"
    unfolding run by blast
  have quote: "handleUserQuery w userQuery options
                    = (Inr \<lparr>isAnalysis = False, res_response = Some (''Your previous question was: '' @ [CHR 0x22]
                     @ content (user_turns_desc docs cid ! 1) @ [CHR 0x22]),
                   dataSources = None, hasLivePrice = None, res_confidenceScore = None\<rparr>, [])"
    if "2 \<le> length (user_turns_desc docs cid) \<and> content (user_turns_desc docs cid ! 1) \<noteq> []"
  proof -
    have "getLastUserMessage docs cid = Some (content (user_turns_desc docs cid ! 1))"
      using that getLastUserMessage_second by blast
    then show ?thesis by (simp add: run last_question_response_def)
  qed
  have none: "handleUserQuery w userQuery options
                    = (Inr \<lparr>isAnalysis = False, res_response = Some (''No previous question found in this chat.''),
                   dataSources = None, hasLivePrice = None, res_confidenceScore = None\<rparr>, [])"
    if "length (user_turns_desc docs cid) < 2"
  proof -
    have "getLastUserMessage docs cid = None" using that by (rule getLastUserMessage_short)
    then show ?thesis by (simp add: run last_question_response_def)
  qed
  show ?thesis using some quote none by blast
qed

lemma example_turns:
  "user_turns_desc example_chat ''c1''
     = [\<lparr>chatId = ''c1'', mtype = ''user'', content = ''analyze BTC'', timestamp = 3\<rparr>,
        \<lparr>chatId = ''c1'', mtype = ''user'', content = ''what'' @ [CHR 0x27] @ ''s ETH price'',
          timestamp = 1\<rparr>]"
  "user_turns_desc example_chat ''c2''
     = [\<lparr>chatId = ''c2'', mtype = ''user'', content = ''hello'', timestamp = 4\<rparr>]"
  by (simp_all add: user_turns_desc_def example_chat_def)

lemma example_phrasings:
  "toLowerCase (trim ''What did I ask just now'') = ''what did i ask just now''"
  "toLowerCase (trim (CHR 0xA0 # '' My LAST Question'' @ [CHR 0x09, CHR 0x20]))
     = ''my last question''"
  by (simp_all add: trim_def is_space_def toLowerCase_def upper_chars_def lower_chars_def)

theorem last_question_bypass_witness:
  "memory outage_world \<and> chatMessages outage_world = Inr example_chat
   \<and> 2 \<le> length (user_turns_desc example_chat ''c1'')
   \<and> length (user_turns_desc example_chat ''c2'') < 2
   \<and> handleUserQuery outage_world ''What did I ask just now''
        \<lparr>opt_chatId = Some ''c1'', opt_userId = None\<rparr>
       = (Inr \<lparr>isAnalysis = False,
               res_response = Some (''Your previous question was: '' @ [CHR 0x22]
                 @ ''what'' @ [CHR 0x27] @ ''s ETH price'' @ [CHR 0x22]),
               dataSources = None, hasLivePrice = None, res_confidenceScore = None\<rparr>, [])
   \<and> handleUserQuery outage_world (CHR 0xA0 # '' My LAST Question'' @ [CHR 0x09, CHR 0x20])
        \<lparr>opt_chatId = Some ''c2'', opt_userId = None\<rparr>
       = (Inr \<lparr>isAnalysis = False,
               res_response = Some ''No previous question found in this chat.'',
               dataSources = None, hasLivePrice = None, res_confidenceScore = None\<rparr>, [])"
proof -
  have w: "memory outage_world" "chatMessages outage_world = Inr example_chat"
    by (simp_all add: outage_world_def)
  have p1: "toLowerCase (trim ''What did I ask just now'')
           \<in> {''what did i ask just now'', ''what did i ask just now?'', ''what did i ask'',
             ''what was my last question'', ''last question?'',
             ''what was my previous question'', ''my last question''}"
    by (simp add: example_phrasings)
  have p2: "toLowerCase (trim (CHR 0xA0 # '' My LAST Question'' @ [CHR 0x09, CHR 0x20]))
           \<in> {''what did i ask just now'', ''what did i ask just now?'', ''what did i ask'',
             ''what was my last question'', ''last question?'',
             ''what was my previous question'', ''my last question''}"
    by (simp only: example_phrasings) simp
  note t1 = last_question_bypass
    [of "''What did I ask just now''" "\<lparr>opt_chatId = Some ''c1'', opt_userId = None\<rparr>" "''c1''"
        outage_world example_chat, OF p1 _ _ w]
  note t2 = last_question_bypass
    [of "CHR 0xA0 # '' My LAST Question'' @ [CHR 0x09, CHR 0x20]"
        "\<lparr>opt_chatId = Some ''c2'', opt_userId = None\<rparr>" "''c2''"
        outage_world example_chat, OF p2 _ _ w]
  have r1: "handleUserQuery outage_world ''What did I ask just now''
        \<lparr>opt_chatId = Some ''c1'', opt_userId = None\<rparr>
       = (Inr \<lparr>isAnalysis = False,
               res_response = Some (''Your previous question was: '' @ [CHR 0x22]
                 @ ''what'' @ [CHR 0x27] @ ''s ETH price'' @ [CHR 0x22]),
               dataSources = None, hasLivePrice = None, res_confidenceScore = None\<rparr>, [])"
    using t1 by (simp add: example_turns)
  have r2: "handleUserQuery outage_world (CHR 0xA0 # '' My LAST Question'' @ [CHR 0x09, CHR 0x20])
        \<lparr>opt_chatId = Some ''c2'', opt_userId = None\<rparr>
       = (Inr \<lparr>isAnalysis = False,
               res_response = Some ''No previous question found in this chat.'',
               dataSources = None, hasLivePrice = None, res_confidenceScore = None\<rparr>, [])"
    using t2 by (simp add: example_turns)
  show ?thesis using w r1 r2 by (simp add: example_turns)
qed

subsection \<open>The aggregator\<close>

text \<open>
  What one entry of the plan adds to the sources: the Bybit result, and after a failed
  fetch of a data type containing \<^verbatim>\<open>tickers\<close> one entry of type \<^verbatim>\<open>fallback\<close> with status
  \<^verbatim>\<open>success\<close> when the pool returns data, and nothing when the pool returns \<^verbatim>\<open>null\<close>.
\<close>

lemma tryFallbackData_sources:
  "sources (tryFallbackData w s a) =
     sources a @
     (case snd (getBackupData (fetchOnDemand w) (clock w) (fallback w) s) of
        None \<Rightarrow> []
      | Some fb \<Rightarrow> [\<lparr>type = ''fallback'', resource = backupProvider fb @ ''_ticker'',
                     status = ''success'', error = None\<rparr>])"
  by (simp add: tryFallbackData_def tryFallbackData_on_def push_def split: option.splits)

lemma bybit_entry_sources:
  "sources (fst (fetch_bybit_entries w [(dataType, params)] (a, cs))) =
     sources a @
     (case fetchBybitData w dataType params of
        Inr result \<Rightarrow>
          [\<lparr>type = ''bybit'', resource = dataType, status = ''success'', error = None\<rparr>]
      | Inl msg \<Rightarrow>
          \<lparr>type = ''bybit'', resource = dataType, status = ''failed'', error = Some msg\<rparr>
          # (if str_includes dataType ''tickers'' then
               (case snd (getBackupData (fetchOnDemand w) (clock w) (fallback w) (symbol params)) of
                  None \<Rightarrow> []
                | Some fb \<Rightarrow> [\<lparr>type = ''fallback'', resource = backupProvider fb @ ''_ticker'',
                               status = ''success'', error = None\<rparr>])
             else []))"
proof (cases "fetchBybitData w dataType params")
  case (Inr result)
  then show ?thesis by (simp add: Let_def push_def)
next
  case (Inl msg)
  have t: "dataType = ''tickers'' \<Longrightarrow> str_includes dataType ''tickers''"
    by (simp add: startsWith_def)
  show ?thesis
  proof (cases "str_includes dataType ''tickers''")
    case True
    then show ?thesis using Inl by (simp add: Let_def tryFallbackData_sources push_def)
  next
    case False
    then have "dataType \<noteq> ''tickers''" using t by blast
    then show ?thesis using Inl False by (simp add: Let_def push_def)
  qed
qed

text \<open>
  The log of an aggregation: the Bybit and fallback calls, then one live price lookup when
  the plan requests it, then one web search for each query of the plan in order, then the
  indicator computation if it runs. No outcome of an earlier call removes a later one.
\<close>

lemma web_search_entries_log:
  "snd (web_search_entries w qs st) = snd st @ map WebSearchCall qs"
  by (induction qs arbitrary: st) simp_all

lemma fetch_bybit_entries_log:
  "\<exists>l. snd (fetch_bybit_entries w es (a, cs)) = cs @ l
       \<and> (\<forall>c \<in> set l. \<exists>s. c = BybitCall s \<or> c = FallbackCall s)"
proof (induction es arbitrary: a cs)
  case Nil
  then show ?case by simp
next
  case (Cons entry es)
  obtain dataType params where entry: "entry = (dataType, params)"
    by (cases entry)
  show ?case
  proof (cases "fetchBybitData w dataType params")
    case (Inr result)
    define a1 where "a1 = push \<lparr>type = ''bybit'', resource = dataType, status = ''success'',
      error = None\<rparr> (a\<lparr>bybitData := (bybitData a)(dataType \<mapsto> result)\<rparr>)"
    have step: "fetch_bybit_entries w (entry # es) (a, cs)
                  = fetch_bybit_entries w es (a1, cs @ [BybitCall dataType])"
      using Inr by (simp add: entry a1_def Let_def)
    from Cons.IH [of a1 "cs @ [BybitCall dataType]"]
    obtain l where "snd (fetch_bybit_entries w es (a1, cs @ [BybitCall dataType]))
                      = (cs @ [BybitCall dataType]) @ l"
      and "\<forall>c \<in> set l. \<exists>s. c = BybitCall s \<or> c = FallbackCall s"
      by blast
    then show ?thesis unfolding step
      by (intro exI [of _ "BybitCall dataType # l"]) simp
  next
    case (Inl msg)
    define a1 where "a1 = push \<lparr>type = ''bybit'', resource = dataType, status = ''failed'',
      error = Some msg\<rparr> a"
    show ?thesis
    proof (cases "str_includes dataType ''tickers'' \<or> dataType = ''tickers''")
      case True
      have step: "fetch_bybit_entries w (entry # es) (a, cs)
                    = fetch_bybit_entries w es
                        (tryFallbackData w (symbol params) a1,
                         cs @ [BybitCall dataType, FallbackCall (symbol params)])"
        using Inl True by (simp add: entry a1_def Let_def)
      from Cons.IH [of "tryFallbackData w (symbol params) a1"
                       "cs @ [BybitCall dataType, FallbackCall (symbol params)]"]
      obtain l where "snd (fetch_bybit_entries w es
                        (tryFallbackData w (symbol params) a1,
                         cs @ [BybitCall dataType, FallbackCall (symbol params)]))
                      = (cs @ [BybitCall dataType, FallbackCall (symbol params)]) @ l"
        and "\<forall>c \<in> set l. \<exists>s. c = BybitCall s \<or> c = FallbackCall s"
        by blast
      then show ?thesis unfolding step
        by (intro exI [of _ "BybitCall dataType # FallbackCall (symbol params) # l"]) simp
    next
      case False
      have step: "fetch_bybit_entries w (entry # es) (a, cs)
                    = fetch_bybit_entries w es (a1, cs @ [BybitCall dataType])"
        using Inl False by (simp add: entry a1_def Let_def)
      from Cons.IH [of a1 "cs @ [BybitCall dataType]"]
      obtain l where "snd (fetch_bybit_entries w es (a1, cs @ [BybitCall dataType]))
                        = (cs @ [BybitCall dataType]) @ l"
        and "\<forall>c \<in> set l. \<exists>s. c = BybitCall s \<or> c = FallbackCall s"
        by blast
      then show ?thesis unfolding step
        by (intro exI [of _ "BybitCall dataType # l"]) simp
    qed
  qed
qed

lemma indicators_block_log:
  "snd (indicators_block w rd st) = snd st \<or> snd (indicators_block w rd st) = snd st @ [IndicatorsCall]"
  by (simp add: indicators_block_def split: option.splits sum.splits)

lemma aggregate_log:
  "\<exists>pre post.
     snd (aggregate w userQuery rd)
       = pre @ (if wantsLivePrice rd then [LivePriceCall userQuery] else [])
           @ map WebSearchCall (case webSearch rd of None \<Rightarrow> [] | Some qs \<Rightarrow> qs) @ post
     \<and> (\<forall>c \<in> set pre. \<exists>s. c = BybitCall s \<or> c = FallbackCall s)
     \<and> (post = [] \<or> post = [IndicatorsCall])"
proof -
  obtain pre where pre: "snd (bybit_block w rd (empty_data, [])) = pre"
    and pre_calls: "\<forall>c \<in> set pre. \<exists>s. c = BybitCall s \<or> c = FallbackCall s"
    using fetch_bybit_entries_log [of w _ empty_data "[]"]
    by (cases "bybit rd") (auto simp: bybit_block_def)
  define s1 where "s1 = bybit_block w rd (empty_data, [])"
  define s2 where "s2 = live_price_block w userQuery rd s1"
  define s3 where "s3 = web_search_block w rd s2"
  have l2: "snd s2 = pre @ (if wantsLivePrice rd then [LivePriceCall userQuery] else [])"
    using pre by (simp add: s2_def s1_def live_price_block_def)
  have l3: "snd s3 = snd s2 @ map WebSearchCall (case webSearch rd of None \<Rightarrow> [] | Some qs \<Rightarrow> qs)"
    by (cases "webSearch rd") (simp_all add: s3_def web_search_block_def web_search_entries_log)
  have l4: "snd (aggregate w userQuery rd) = snd (indicators_block w rd s3)"
    by (simp add: aggregate_def Let_def s3_def s2_def s1_def)
  from indicators_block_log [of w rd s3]
  show ?thesis
  proof
    assume "snd (indicators_block w rd s3) = snd s3"
    then show ?thesis using l2 l3 l4 pre_calls by (intro exI [of _ pre] exI [of _ "[]"]) simp
  next
    assume "snd (indicators_block w rd s3) = snd s3 @ [IndicatorsCall]"
    then show ?thesis using l2 l3 l4 pre_calls
      by (intro exI [of _ pre] exI [of _ "[IndicatorsCall]"]) simp
  qed
qed


subsection \<open>Two runs with failing services\<close>

lemma outage_fields:
  "memory outage_world" "planningOracle outage_world = Inl ''timeout''"
  "bybitClient outage_world = (\<lambda>dataType params. Inl ''timeout'')"
  "fallback outage_world = example_pool" "fetchOnDemand outage_world = (\<lambda>p s. None)"
  "clock outage_world = 0" "priceApi outage_world = (\<lambda>api s. Inl ''timeout'')"
  "fetchTavilyContext outage_world = (\<lambda>q. None)"
  "generateFinalAnalysis outage_world = (\<lambda>a. Inr ''analysis'')"
  by (simp_all add: outage_world_def)

lemma price_outage_fields:
  "planningOracle price_outage_world = Inl ''timeout''"
  "bybitClient price_outage_world
     = (\<lambda>dataType params. Inr \<lparr>retCode = 0, retMsg = ''OK'', payload = JArr []\<rparr>)"
  "priceApi price_outage_world = (\<lambda>api s. Inl ''timeout'')"
  "fetchTavilyContext price_outage_world = (\<lambda>q. None)"
  "generateFinalAnalysis price_outage_world = (\<lambda>a. Inr ''analysis'')"
  by (simp_all add: price_outage_world_def outage_world_def)

lemma outage_backup:
  "getBackupData (\<lambda>p s. None) 0 example_pool ''BTCUSDT'' = ([coinbase, coingecko], None)"
proof -
  have "getUniversalData (\<lambda>p s. None) example_pool ''BTCUSDT''
          = (asked (answer_of (\<lambda>p s. None) btc_mapping) [coinbase, coingecko],
             first_answer (answer_of (\<lambda>p s. None) btc_mapping) [coinbase, coingecko])"
    using getUniversalData_mapped [OF btc_mapped, of "\<lambda>p s. None" example_pool]
    by (simp add: example_candidates)
  then have "getUniversalData (\<lambda>p s. None) example_pool ''BTCUSDT'' = ([coinbase, coingecko], None)"
    by (simp add: asked_def first_answer_def answer_of_def btc_mapping_def)
  then show ?thesis by (simp add: getBackupData_def example_pool_state)
qed

lemma outage_fallback: "tryFallbackData outage_world ''BTCUSDT'' a = a"
  by (simp add: tryFallbackData_def outage_fields outage_backup tryFallbackData_on_def)

lemma outage_bybit:
  "bybit_block outage_world bitcoin_required (empty_data, [])
     = (push tickers_failed empty_data, [BybitCall ''tickers'', FallbackCall ''BTCUSDT''])"
  by (simp add: bybit_block_def bitcoin_required_def fetchBybitData_def outage_fields
        startsWith_def outage_fallback tickers_failed_def Let_def)

lemma upper_bitcoin_price: "toUpperCase ''Bitcoin price'' = ''BITCOIN PRICE''"
  by (simp add: toUpperCase_def upper_chars_def lower_chars_def)

lemma symbol_bitcoin_price: "extractSymbolFromQuery ''Bitcoin price'' = Some ''BITCOIN''"
  by (simp add: extractSymbolFromQuery_def upper_bitcoin_price symbolMap_keys_def startsWith_def)

lemma outage_live_price: "fetchLivePrice (\<lambda>api s. Inl ''timeout'') ''Bitcoin price'' = None"
  by (simp add: fetchLivePrice_def symbol_bitcoin_price priceAPIs_def)

lemma outage_live_block:
  "live_price_block outage_world ''Bitcoin price'' bitcoin_required (a, cs)
     = (a, cs @ [LivePriceCall ''Bitcoin price''])"
  by (simp add: live_price_block_def bitcoin_required_def outage_fields outage_live_price
        live_price_on_def)

lemma price_outage_live_block:
  "live_price_block price_outage_world ''Bitcoin price'' bitcoin_required (a, cs)
     = (a, cs @ [LivePriceCall ''Bitcoin price''])"
  by (simp add: live_price_block_def bitcoin_required_def price_outage_fields outage_live_price
        live_price_on_def)

lemma outage_web_block:
  "web_search_block outage_world bitcoin_required (a, cs)
     = (push web_ok (a\<lparr>webContent := Some [(''BTCUSDT current price'', ''No web results found.'')]\<rparr>),
        cs @ [WebSearchCall ''BTCUSDT current price''])"
  by (simp add: web_search_block_def bitcoin_required_def searchAndSummarizeWeb_def
        outage_fields web_search_on_def web_ok_def push_def)

lemma price_outage_web_block:
  "web_search_block price_outage_world bitcoin_required (a, cs)
     = (push web_ok (a\<lparr>webContent := Some [(''BTCUSDT current price'', ''No web results found.'')]\<rparr>),
        cs @ [WebSearchCall ''BTCUSDT current price''])"
  by (simp add: web_search_block_def bitcoin_required_def searchAndSummarizeWeb_def
        price_outage_fields web_search_on_def web_ok_def push_def)

lemma price_outage_bybit:
  "bybit_block price_outage_world bitcoin_required (empty_data, [])
     = (push tickers_ok (empty_data\<lparr>bybitData := [''tickers'' \<mapsto> JArr []]\<rparr>),
        [BybitCall ''tickers''])"
  by (simp add: bybit_block_def bitcoin_required_def fetchBybitData_def price_outage_fields
        startsWith_def tickers_ok_def empty_data_def Let_def)

lemma no_kline:
  "bybitData a ''kline'' = None \<Longrightarrow> indicators_block w bitcoin_required (a, cs) = (a, cs)"
  by (simp add: indicators_block_def bitcoin_required_def)

lemma outage_score: "calculateConfidenceScore outage_data = 70"
  by (simp add: confidence_eq score_sum_def totalCount_def successCount_def bonuses_def
        hasWebContent_def outage_data_def tickers_failed_def web_ok_def Math_round_def)

lemma price_outage_score: "calculateConfidenceScore price_outage_data = 85"
  by (simp add: confidence_eq score_sum_def totalCount_def successCount_def bonuses_def
        hasWebContent_def price_outage_data_def tickers_ok_def web_ok_def Math_round_def)

lemma outage_aggregate:
  "aggregate outage_world ''Bitcoin price'' bitcoin_required
     = (outage_data\<lparr>confidenceScore := Some 70\<rparr>,
        [BybitCall ''tickers'', FallbackCall ''BTCUSDT'', LivePriceCall ''Bitcoin price'',
         WebSearchCall ''BTCUSDT current price''])"
proof -
  have "web_search_block outage_world bitcoin_required
          (live_price_block outage_world ''Bitcoin price'' bitcoin_required
            (bybit_block outage_world bitcoin_required (empty_data, [])))
        = (outage_data,
           [BybitCall ''tickers'', FallbackCall ''BTCUSDT'', LivePriceCall ''Bitcoin price'',
            WebSearchCall ''BTCUSDT current price''])"
    unfolding outage_bybit outage_live_block outage_web_block
    by (simp add: push_def empty_data_def outage_data_def)
  moreover have "bybitData outage_data ''kline'' = None" by (simp add: outage_data_def)
  ultimately show ?thesis
    by (simp add: aggregate_def no_kline outage_score)
qed

lemma price_outage_aggregate:
  "aggregate price_outage_world ''Bitcoin price'' bitcoin_required
     = (price_outage_data\<lparr>confidenceScore := Some 85\<rparr>,
        [BybitCall ''tickers'', LivePriceCall ''Bitcoin price'',
         WebSearchCall ''BTCUSDT current price''])"
proof -
  have "web_search_block price_outage_world bitcoin_required
          (live_price_block price_outage_world ''Bitcoin price'' bitcoin_required
            (bybit_block price_outage_world bitcoin_required (empty_data, [])))
        = (price_outage_data,
           [BybitCall ''tickers'', LivePriceCall ''Bitcoin price'',
            WebSearchCall ''BTCUSDT current price''])"
    unfolding price_outage_bybit price_outage_live_block price_outage_web_block
    by (simp add: push_def empty_data_def price_outage_data_def)
  moreover have "bybitData price_outage_data ''kline'' = None" by (simp add: price_outage_data_def)
  ultimately show ?thesis
    by (simp add: aggregate_def no_kline price_outage_score)
qed

lemma plan_required: "requiredData bitcoin_price_plan = Some bitcoin_required"
  by (simp add: bitcoin_price_plan_def bitcoin_required_def)

lemma not_last_question: "\<not> isLastQuestionQuery ''Bitcoin price''"
  by (simp add: isLastQuestionQuery_def trim_def is_space_def lower_bitcoin_price
        last_question_phrases_def)

lemma no_chat_recent: "load_recent w no_chat = Inr []"
  by (simp add: load_recent_def chatId_of_def no_chat_def)

text \<open>
  C1: the query \<^verbatim>\<open>Bitcoin price\<close> in a world where the planning oracle, the Bybit request
  for \<^verbatim>\<open>tickers\<close> and both active backup providers fail. The fallback pool is asked for
  \<^verbatim>\<open>BTCUSDT\<close> once and returns \<^verbatim>\<open>null\<close>; the sources returned hold the failed Bybit
  entry and the web entry, and no entry of type \<^verbatim>\<open>fallback\<close>.
\<close>

theorem ticker_failure_without_fallback_entry:
  "handleUserQuery outage_world ''Bitcoin price'' no_chat
     = (Inr \<lparr>isAnalysis = True, res_response = Some ''analysis'',
             dataSources = Some [tickers_failed, web_ok], hasLivePrice = Some False,
             res_confidenceScore = Some 70\<rparr>,
        [OracleCall, BybitCall ''tickers'', FallbackCall ''BTCUSDT'',
         LivePriceCall ''Bitcoin price'', WebSearchCall ''BTCUSDT current price'',
         FinalAnalysisCall])
   \<and> filter (\<lambda>s. type s = ''fallback'') [tickers_failed, web_ok] = []"
proof -
  have "analyse outage_world ''Bitcoin price'' bitcoin_price_plan
     = (Inr \<lparr>isAnalysis = True, res_response = Some ''analysis'',
             dataSources = Some [tickers_failed, web_ok], hasLivePrice = Some False,
             res_confidenceScore = Some 70\<rparr>,
        [BybitCall ''tickers'', FallbackCall ''BTCUSDT'',
         LivePriceCall ''Bitcoin price'', WebSearchCall ''BTCUSDT current price'',
         FinalAnalysisCall])"
    by (simp add: analyse_def plan_required outage_aggregate outage_fields outage_data_def)
  then show ?thesis
    by (simp add: handleUserQuery_def not_last_question no_chat_recent outage_fields
          createDynamicDataPlan_def not_casual_bitcoin_price fallback_plan_bitcoin_price
          bitcoin_price_plan_def tickers_failed_def web_ok_def)
qed

text \<open>
  C4: the query \<^verbatim>\<open>Bitcoin price\<close> in a world where Bybit answers and every live price
  service fails. The live price lookup is made once and returns \<^verbatim>\<open>null\<close>, the web search
  and the final analysis still run; the sources returned hold no entry of type
  \<^verbatim>\<open>live_price\<close>, and the score counts two successes out of two.
\<close>

theorem live_price_failure_without_entry:
  "handleUserQuery price_outage_world ''Bitcoin price'' no_chat
     = (Inr \<lparr>isAnalysis = True, res_response = Some ''analysis'',
             dataSources = Some [tickers_ok, web_ok], hasLivePrice = Some False,
             res_confidenceScore = Some 85\<rparr>,
        [OracleCall, BybitCall ''tickers'', LivePriceCall ''Bitcoin price'',
         WebSearchCall ''BTCUSDT current price'', FinalAnalysisCall])
   \<and> filter (\<lambda>s. type s = ''live_price'') [tickers_ok, web_ok] = []
   \<and> fetchLivePrice (priceApi price_outage_world) ''Bitcoin price'' = None"
proof -
  have "analyse price_outage_world ''Bitcoin price'' bitcoin_price_plan
     = (Inr \<lparr>isAnalysis = True, res_response = Some ''analysis'',
             dataSources = Some [tickers_ok, web_ok], hasLivePrice = Some False,
             res_confidenceScore = Some 85\<rparr>,
        [BybitCall ''tickers'', LivePriceCall ''Bitcoin price'',
         WebSearchCall ''BTCUSDT current price'', FinalAnalysisCall])"
    by (simp add: analyse_def plan_required price_outage_aggregate price_outage_fields
          price_outage_data_def)
  then show ?thesis
    by (simp add: handleUserQuery_def not_last_question no_chat_recent price_outage_fields
          createDynamicDataPlan_def not_casual_bitcoin_price fallback_plan_bitcoin_price
          bitcoin_price_plan_def tickers_ok_def web_ok_def outage_live_price)
qed


end
